theory Spec2Isabelle
  imports Complex_Main "HOL-Library.Multiset"
begin

section \<open>JavaScript values\<close>

text \<open>
  The component receives its rows as \<^verbatim>\<open>any[]\<close>; a row maps a column label to a raw
  scalar, a string or a number, and a label that is absent reads as \<^verbatim>\<open>undefined\<close>.
  Numbers are exact rationals: the rounding of IEEE doubles is not modelled, and
  \<^verbatim>\<open>NaN\<close> is a value of its own only where the code can compute it.
\<close>

datatype jsval = JUndefined | JString string | JNumber rat

type_synonym row = "string \<Rightarrow> jsval"

text \<open>
  A computed number: \<^verbatim>\<open>NaN\<close>, a rational, or an infinity (\<open>Infinite True\<close> is
  \<^verbatim>\<open>+Infinity\<close>), which only a division by zero produces here.
\<close>

datatype number = NaN | Num rat | Infinite bool

text \<open>The only exception the classification can raise: a method call on a value that has no such method.\<close>

datatype error = TypeError

text \<open>
  Built-ins of the host whose results ECMA-262 leaves to the implementation or defines on
  doubles, and the one helper imported from \<^verbatim>\<open>@/lib/utils\<close>, which is not among the
  sources: \<^verbatim>\<open>Date.parse\<close> (the time value in milliseconds, \<open>None\<close> for an invalid
  date), \<^verbatim>\<open>Number::toString\<close> and \<^verbatim>\<open>safeFormatCurrency\<close>. Every definition below takes
  them as a parameter.
\<close>

record host =
  dateParse :: "string \<Rightarrow> int option"
  numberToString :: "rat \<Rightarrow> string"
  safeFormatCurrency :: "number \<Rightarrow> string"

fun truthy :: "jsval \<Rightarrow> bool" where
  "truthy JUndefined = False"
| "truthy (JString s) = (s \<noteq> [])"
| "truthy (JNumber n) = (n \<noteq> 0)"

text \<open>\<^verbatim>\<open>a || b\<close>\<close>

definition lor :: "jsval \<Rightarrow> jsval \<Rightarrow> jsval" where
  "lor a b = (if truthy a then a else b)"

text \<open>\<^verbatim>\<open>String(v)\<close>, also the conversion inside a template literal.\<close>

fun toString :: "host \<Rightarrow> jsval \<Rightarrow> string" where
  "toString h JUndefined = ''undefined''"
| "toString h (JString s) = s"
| "toString h (JNumber n) = numberToString h n"

text \<open>
  \<^verbatim>\<open>new Date(v)\<close>, read through \<^verbatim>\<open>getTime()\<close>: a string is parsed, a number is
  clipped to the range of time values and truncated.
\<close>

definition timeClip :: "rat \<Rightarrow> int option" where
  "timeClip n =
     (if \<bar>n\<bar> > 8640000000000000 then None
      else Some (if n \<ge> 0 then \<lfloor>n\<rfloor> else \<lceil>n\<rceil>))"

fun newDate :: "host \<Rightarrow> jsval \<Rightarrow> int option" where
  "newDate h JUndefined = None"
| "newDate h (JString s) = dateParse h s"
| "newDate h (JNumber n) = timeClip n"

text \<open>\<^verbatim>\<open>a >= b\<close> and \<^verbatim>\<open>a < b\<close> on two dates: false as soon as one of them is invalid.\<close>

fun dateGe :: "int option \<Rightarrow> int option \<Rightarrow> bool" where
  "dateGe (Some a) (Some b) = (a \<ge> b)"
| "dateGe _ _ = False"

fun dateLt :: "int option \<Rightarrow> int option \<Rightarrow> bool" where
  "dateLt (Some a) (Some b) = (a < b)"
| "dateLt _ _ = False"

text \<open>\<^verbatim>\<open>x > 0\<close>, \<^verbatim>\<open>x < 0\<close> and \<^verbatim>\<open>x <= 0\<close>: every comparison with \<^verbatim>\<open>NaN\<close> is false.\<close>

fun gt0 :: "number \<Rightarrow> bool" where
  "gt0 NaN = False"
| "gt0 (Num q) = (q > 0)"
| "gt0 (Infinite pos) = pos"

fun lt0 :: "number \<Rightarrow> bool" where
  "lt0 NaN = False"
| "lt0 (Num q) = (q < 0)"
| "lt0 (Infinite pos) = (\<not> pos)"

fun le0 :: "number \<Rightarrow> bool" where
  "le0 NaN = False"
| "le0 (Num q) = (q \<le> 0)"
| "le0 (Infinite pos) = (\<not> pos)"

text \<open>
  \<^verbatim>\<open>a / b\<close>, \<^verbatim>\<open>a * b\<close> and \<^verbatim>\<open>a + b\<close>. A quotient by zero is \<^verbatim>\<open>NaN\<close> for \<open>0 / 0\<close>
  and an infinity otherwise; HOL's own \<open>x / 0 = 0\<close> is never relied on.
\<close>

definition jsDiv :: "rat \<Rightarrow> rat \<Rightarrow> number" where
  "jsDiv a b = (if b = 0 then (if a = 0 then NaN else Infinite (a > 0)) else Num (a / b))"

fun jsTimes :: "number \<Rightarrow> number \<Rightarrow> number" where
  "jsTimes (Num a) (Num b) = Num (a * b)"
| "jsTimes (Infinite s) (Num b) = (if b = 0 then NaN else Infinite (s = (b > 0)))"
| "jsTimes (Num a) (Infinite s) = (if a = 0 then NaN else Infinite (s = (a > 0)))"
| "jsTimes (Infinite s) (Infinite s') = Infinite (s = s')"
| "jsTimes _ _ = NaN"

fun jsAdd :: "number \<Rightarrow> number \<Rightarrow> number" where
  "jsAdd (Num a) (Num b) = Num (a + b)"
| "jsAdd (Infinite s) (Num b) = Infinite s"
| "jsAdd (Num a) (Infinite s) = Infinite s"
| "jsAdd (Infinite s) (Infinite s') = (if s = s' then Infinite s else NaN)"
| "jsAdd _ _ = NaN"

section \<open>Strings\<close>

text \<open>
  Strings are byte strings. \<^verbatim>\<open>toLowerCase\<close> maps the letters A to Z and leaves every
  other byte as it is; the literals the code compares with are ASCII.
\<close>

definition lowerChar :: "char \<Rightarrow> char" where
  "lowerChar c =
     (case map_of (zip ''ABCDEFGHIJKLMNOPQRSTUVWXYZ'' ''abcdefghijklmnopqrstuvwxyz'') c of
        None \<Rightarrow> c
      | Some l \<Rightarrow> l)"

definition toLowerCase :: "string \<Rightarrow> string" where
  "toLowerCase s = map lowerChar s"

text \<open>\<^verbatim>\<open>v.toLowerCase()\<close> on a raw value: only a string has the method.\<close>

fun toLowerCaseOf :: "jsval \<Rightarrow> error + string" where
  "toLowerCaseOf (JString s) = Inr (toLowerCase s)"
| "toLowerCaseOf _ = Inl TypeError"

fun startsWith :: "string \<Rightarrow> string \<Rightarrow> bool" where
  "startsWith s [] = True"
| "startsWith [] (p # ps) = False"
| "startsWith (c # cs) (p # ps) = (c = p \<and> startsWith cs ps)"

text \<open>\<^verbatim>\<open>s.includes(sub)\<close>\<close>

fun includesStr :: "string \<Rightarrow> string \<Rightarrow> bool" where
  "includesStr [] sub = (sub = [])"
| "includesStr (c # cs) sub = (startsWith (c # cs) sub \<or> includesStr cs sub)"

text \<open>\<^verbatim>\<open>xs.join(', ')\<close>\<close>

fun join :: "string list \<Rightarrow> string" where
  "join [] = []"
| "join [x] = x"
| "join (x # y # ys) = x @ '', '' @ join (y # ys)"

section \<open>Reading a sale value\<close>

definition isDigit :: "char \<Rightarrow> bool" where
  "isDigit c = (c \<in> set ''0123456789'')"

definition digitVal :: "char \<Rightarrow> nat" where
  "digitVal c =
     (case map_of (zip ''0123456789'' [0, 1, 2, 3, 4, 5, 6, 7, 8, 9]) c of
        None \<Rightarrow> 0
      | Some d \<Rightarrow> d)"

text \<open>The value of a string of digits, most significant first.\<close>

definition digitsVal :: "string \<Rightarrow> nat" where
  "digitsVal ds = foldl (\<lambda>acc c. 10 * acc + digitVal c) 0 ds"

text \<open>\<^verbatim>\<open>s.replace(/[^0-9.-]+/g, '')\<close>: every character that is not a digit, a dot or a minus goes.\<close>

definition stripNonNumeric :: "string \<Rightarrow> string" where
  "stripNonNumeric s = filter (\<lambda>c. isDigit c \<or> c = CHR ''.'' \<or> c = CHR ''-'') s"

text \<open>
  \<^verbatim>\<open>parseFloat\<close> on the strings that reach it, which hold digits, dots and minus signs
  only: an optional minus, then digits with an optional fraction, or a dot and digits.
  The longest such prefix is read and the rest ignored; with no digit at all the result
  is \<^verbatim>\<open>NaN\<close>. No exponent, white space, plus sign or \<^verbatim>\<open>Infinity\<close> can occur there.
\<close>

definition parseUnsigned :: "string \<Rightarrow> rat option" where
  "parseUnsigned s =
     (let intPart = takeWhile isDigit s;
          rest = dropWhile isDigit s;
          fracPart = (case rest of
                        c # cs \<Rightarrow> if c = CHR ''.'' then takeWhile isDigit cs else []
                      | [] \<Rightarrow> [])
      in if intPart = [] \<and> fracPart = [] then None
         else Some (of_nat (digitsVal intPart)
                    + of_nat (digitsVal fracPart) / 10 ^ length fracPart))"

definition parseFloat :: "string \<Rightarrow> number" where
  "parseFloat s =
     (case s of
        [] \<Rightarrow> NaN
      | c # cs \<Rightarrow>
          if c = CHR ''-''
          then (case parseUnsigned cs of None \<Rightarrow> NaN | Some q \<Rightarrow> Num (- q))
          else (case parseUnsigned (c # cs) of None \<Rightarrow> NaN | Some q \<Rightarrow> Num q))"

section \<open>The conversion classifier\<close>

text \<open>
  The rows the memo \<^verbatim>\<open>processedData\<close> of the conversion summary table builds, one for each
  client that is kept. A field typed \<^verbatim>\<open>T | null\<close> is an option.
\<close>

datatype status = converted | not_converted

record processedClient =
  memberID :: jsval
  firstName :: jsval
  lastName :: jsval
  email :: jsval
  firstVisitDate :: jsval
  firstVisitLocation :: jsval
  membershipUsed :: jsval
  teacher :: jsval
  firstPurchaseDate :: "jsval option"
  firstPurchaseProduct :: "jsval option"
  firstPurchaseValue :: "number option"
  conversionStatus :: status
  conversionDetails :: string
  daysToConversion :: "int option"
  validationErrors :: "string list"

subsection \<open>The fields of a client row\<close>

definition client_memberID :: "host \<Rightarrow> nat \<Rightarrow> row \<Rightarrow> jsval" where
  "client_memberID h index client =
     lor (lor (lor (client ''Member ID'') (client ''memberID'')) (client ''id''))
         (JString (''client_'' @ numberToString h (of_nat index)))"

definition client_firstName :: "row \<Rightarrow> jsval" where
  "client_firstName client = lor (lor (client ''First name'') (client ''firstName'')) (JString [])"

definition client_lastName :: "row \<Rightarrow> jsval" where
  "client_lastName client = lor (lor (client ''Last name'') (client ''lastName'')) (JString [])"

definition client_email :: "row \<Rightarrow> jsval" where
  "client_email client = lor (lor (client ''Email'') (client ''email'')) (JString [])"

definition client_firstVisitDate :: "row \<Rightarrow> jsval" where
  "client_firstVisitDate client =
     lor (lor (lor (client ''First visit at'') (client ''firstVisitAt'')) (client ''date''))
         (JString [])"

definition client_firstVisitLocation :: "row \<Rightarrow> jsval" where
  "client_firstVisitLocation client =
     lor (lor (client ''First visit location'') (client ''location'')) (JString [])"

definition client_membershipUsed :: "row \<Rightarrow> jsval" where
  "client_membershipUsed client =
     lor (lor (client ''Membership used'') (client ''membershipUsed'')) (JString [])"

definition client_teacher :: "row \<Rightarrow> jsval" where
  "client_teacher client = lor (lor (client ''Teacher'') (client ''teacher'')) (JString ''Unknown'')"

text \<open>\<^verbatim>\<open>const visitDate = new Date(firstVisitDate)\<close>\<close>

definition visitDate :: "host \<Rightarrow> row \<Rightarrow> int option" where
  "visitDate h client = newDate h (client_firstVisitDate client)"

text \<open>
  The guard at the head of the loop body:
  \<^verbatim>\<open>client.Teacher && client.Teacher.toLowerCase().includes('all trainers')\<close>.
\<close>

definition isAllTrainers :: "row \<Rightarrow> error + bool" where
  "isAllTrainers client =
     (if truthy (client ''Teacher'')
      then (case toLowerCaseOf (client ''Teacher'') of
              Inl e \<Rightarrow> Inl e
            | Inr t \<Rightarrow> Inr (includesStr t ''all trainers''))
      else Inr False)"

text \<open>The validation errors pushed before any sale is looked at, in the order of the pushes.\<close>

definition clientErrors :: "host \<Rightarrow> row \<Rightarrow> string list" where
  "clientErrors h client =
     (if \<not> truthy (client_email client) then [''Missing email address''] else [])
     @ (if \<not> truthy (client_firstVisitDate client) then [''Missing first visit date''] else [])
     @ (if \<not> truthy (client_firstName client) \<and> \<not> truthy (client_lastName client)
        then [''Missing client name''] else [])
     @ (if truthy (client_firstVisitDate client) \<and> visitDate h client = None
        then [''Invalid first visit date format''] else [])"

subsection \<open>Matching sales\<close>

text \<open>\<^verbatim>\<open>===\<close> on strings, numbers and \<^verbatim>\<open>undefined\<close> is equality of the values.\<close>

definition emailMatch :: "jsval \<Rightarrow> row \<Rightarrow> bool" where
  "emailMatch email' sale =
     (sale ''Customer email'' = email'
      \<or> sale ''Paying Customer email'' = email'
      \<or> sale ''email'' = email')"

definition memberIDMatch :: "jsval \<Rightarrow> row \<Rightarrow> bool" where
  "memberIDMatch memberID' sale =
     (sale ''Member ID'' = memberID' \<or> sale ''memberID'' = memberID')"

definition matchingSales :: "jsval \<Rightarrow> jsval \<Rightarrow> row list \<Rightarrow> row list" where
  "matchingSales email' memberID' salesData =
     filter (\<lambda>sale. emailMatch email' sale \<or> memberIDMatch memberID' sale) salesData"

text \<open>The matching sales of the client at position \<open>index\<close> of the client list.\<close>

definition clientSales :: "host \<Rightarrow> row list \<Rightarrow> nat \<Rightarrow> row \<Rightarrow> row list" where
  "clientSales h salesData index client =
     matchingSales (client_email client) (client_memberID h index client) salesData"

subsection \<open>Valid sales\<close>

definition sale_date :: "row \<Rightarrow> jsval" where
  "sale_date sale = lor (lor (sale ''Date'') (sale ''date'')) (JString [])"

definition sale_item :: "row \<Rightarrow> jsval" where
  "sale_item sale = lor (lor (lor (sale ''Item'') (sale ''item'')) (sale ''product'')) (JString [])"

definition sale_category :: "row \<Rightarrow> jsval" where
  "sale_category sale = lor (lor (sale ''Category'') (sale ''category'')) (JString [])"

text \<open>
  \<^verbatim>\<open>parseFloat(String(sale['Sale value'] || sale.value || '0').replace(/[^0-9.-]+/g, ''))\<close>
\<close>

definition saleValue :: "host \<Rightarrow> row \<Rightarrow> number" where
  "saleValue h sale =
     parseFloat (stripNonNumeric
       (toString h (lor (lor (sale ''Sale value'') (sale ''value'')) (JString ''0''))))"

text \<open>\<^verbatim>\<open>new Date(sale['Date'] || sale.date || '')\<close>\<close>

definition saleDate :: "host \<Rightarrow> row \<Rightarrow> int option" where
  "saleDate h sale = newDate h (sale_date sale)"

text \<open>
  The callback of \<^verbatim>\<open>matchingSales.filter\<close>: whether the sale is kept, and what it pushes
  on \<^verbatim>\<open>validationErrors\<close>. Lower-casing a category or an item that is a number raises.
\<close>

definition validSale :: "host \<Rightarrow> int option \<Rightarrow> row \<Rightarrow> error + bool \<times> string list" where
  "validSale h visit sale =
     (case toLowerCaseOf (sale_category sale) of
        Inl e \<Rightarrow> Inl e
      | Inr category \<Rightarrow>
          (case toLowerCaseOf (sale_item sale) of
             Inl e \<Rightarrow> Inl e
           | Inr product \<Rightarrow>
               (let validSaleValue = gt0 (saleValue h sale);
                    notTwoForOne = \<not> includesStr product ''2 for 1'';
                    notRetail = (category \<noteq> ''retail'');
                    saleDateValid = (saleDate h sale \<noteq> None);
                    saleDateAfterVisit = (saleDateValid \<and> dateGe (saleDate h sale) visit);
                    notRefunded = (sale ''Refunded'' \<noteq> JString ''YES'')
                in Inr (validSaleValue \<and> notTwoForOne \<and> notRetail \<and> saleDateAfterVisit
                          \<and> notRefunded,
                        if lt0 (saleValue h sale) then [''Negative sale value detected'']
                        else []))))"

text \<open>
  \<^verbatim>\<open>matchingSales.filter(...)\<close> with its side effect: the sales kept, in their order, and
  \<^verbatim>\<open>validationErrors\<close> after the pushes. An exception in the callback ends the run.
\<close>

fun validSales :: "host \<Rightarrow> int option \<Rightarrow> row list \<Rightarrow> string list
    \<Rightarrow> error + row list \<times> string list" where
  "validSales h visit [] errs = Inr ([], errs)"
| "validSales h visit (sale # sales) errs =
     (case validSale h visit sale of
        Inl e \<Rightarrow> Inl e
      | Inr (keep, pushed) \<Rightarrow>
          (case validSales h visit sales (errs @ pushed) of
             Inl e \<Rightarrow> Inl e
           | Inr (kept, errs') \<Rightarrow> Inr (if keep then sale # kept else kept, errs')))"

subsection \<open>The first purchase\<close>

text \<open>
  \<^verbatim>\<open>validSales.sort((a, b) => dateA.getTime() - dateB.getTime())\<close>. The sort of ES2019 is
  stable, and a comparator result of \<^verbatim>\<open>NaN\<close> counts as \<open>0\<close>. For a comparator that is
  a difference of keys the result is the one stable sorted arrangement, which insertion
  from the right computes.
\<close>

definition compareDates :: "host \<Rightarrow> row \<Rightarrow> row \<Rightarrow> int" where
  "compareDates h a b =
     (case (saleDate h a, saleDate h b) of
        (Some dateA, Some dateB) \<Rightarrow> dateA - dateB
      | _ \<Rightarrow> 0)"

fun insertBy :: "('a \<Rightarrow> 'a \<Rightarrow> int) \<Rightarrow> 'a \<Rightarrow> 'a list \<Rightarrow> 'a list" where
  "insertBy cmp x [] = [x]"
| "insertBy cmp x (y # ys) = (if cmp x y \<le> 0 then x # y # ys else y # insertBy cmp x ys)"

definition sortBy :: "('a \<Rightarrow> 'a \<Rightarrow> int) \<Rightarrow> 'a list \<Rightarrow> 'a list" where
  "sortBy cmp xs = foldr (insertBy cmp) xs []"

definition sortedSales :: "host \<Rightarrow> row list \<Rightarrow> row list" where
  "sortedSales h valid = sortBy (compareDates h) valid"

text \<open>\<^verbatim>\<open>Math.ceil((purchaseDate.getTime() - visitDate.getTime()) / (1000 * 60 * 60 * 24))\<close>\<close>

definition daysBetween :: "int \<Rightarrow> int \<Rightarrow> int" where
  "daysBetween purchase visit = \<lceil>(of_int (purchase - visit) :: rat) / (1000 * 60 * 60 * 24)\<rceil>"

text \<open>\<^verbatim>\<open>firstPurchaseValue || 0\<close> and \<^verbatim>\<open>daysToConversion || 0\<close>\<close>

fun valueOr0 :: "number option \<Rightarrow> number" where
  "valueOr0 (Some (Num q)) = Num q"
| "valueOr0 (Some (Infinite s)) = Infinite s"
| "valueOr0 _ = Num 0"

fun daysOr0 :: "int option \<Rightarrow> int" where
  "daysOr0 (Some d) = d"
| "daysOr0 None = 0"

subsection \<open>One client\<close>

text \<open>
  The row as the loop body declares it before the sales are looked at: the purchase
  fields \<^verbatim>\<open>null\<close>, the status \<^verbatim>\<open>'not_converted'\<close>, the details empty.
\<close>

definition newClient :: "host \<Rightarrow> nat \<Rightarrow> row \<Rightarrow> string list \<Rightarrow> processedClient" where
  "newClient h index client errs =
     \<lparr> memberID = client_memberID h index client,
       firstName = client_firstName client,
       lastName = client_lastName client,
       email = client_email client,
       firstVisitDate = client_firstVisitDate client,
       firstVisitLocation = client_firstVisitLocation client,
       membershipUsed = client_membershipUsed client,
       teacher = client_teacher client,
       firstPurchaseDate = None,
       firstPurchaseProduct = None,
       firstPurchaseValue = None,
       conversionStatus = not_converted,
       conversionDetails = [],
       daysToConversion = None,
       validationErrors = errs \<rparr>"

text \<open>The branch \<^verbatim>\<open>validSales.length > 0\<close>, from \<^verbatim>\<open>firstSale = sortedSales[0]\<close> on.\<close>

definition convertedClient :: "host \<Rightarrow> int option \<Rightarrow> row \<Rightarrow> processedClient \<Rightarrow> processedClient" where
  "convertedClient h visit firstSale p =
     (let purchaseDate = saleDate h firstSale;
          days = (case (purchaseDate, visit) of
                    (Some pt, Some vt) \<Rightarrow> Some (daysBetween pt vt)
                  | _ \<Rightarrow> None);
          value = saleValue h firstSale
      in p\<lparr> conversionStatus := converted,
            firstPurchaseDate := Some (sale_date firstSale),
            firstPurchaseProduct := Some (sale_item firstSale),
            firstPurchaseValue := Some value,
            daysToConversion := days,
            conversionDetails :=
              ''Converted after '' @ numberToString h (of_int (daysOr0 days))
              @ '' days with '' @ [CHR 0x22] @ toString h (sale_item firstSale) @ [CHR 0x22]
              @ '' for '' @ safeFormatCurrency h (valueOr0 (Some value)) \<rparr>)"

text \<open>The reasons one sale adds in the branch that explains a missing conversion.\<close>

definition saleReasons :: "host \<Rightarrow> int option \<Rightarrow> row \<Rightarrow> error + string list" where
  "saleReasons h visit sale =
     (case toLowerCaseOf (sale_category sale) of
        Inl e \<Rightarrow> Inl e
      | Inr category \<Rightarrow>
          (case toLowerCaseOf (sale_item sale) of
             Inl e \<Rightarrow> Inl e
           | Inr product \<Rightarrow>
               Inr ((if le0 (saleValue h sale) then [''Zero or negative sale value''] else [])
                    @ (if includesStr product ''2 for 1'' then [''Excluded product (2 For 1)''] else [])
                    @ (if category = ''retail'' then [''Retail category excluded''] else [])
                    @ (if dateLt (saleDate h sale) visit then [''Purchase before first visit''] else [])
                    @ (if sale ''Refunded'' = JString ''YES'' then [''Purchase was refunded''] else []))))"

text \<open>\<^verbatim>\<open>allSalesForClient.forEach(...)\<close>, with \<^verbatim>\<open>reasons\<close> as the state.\<close>

fun collectReasons :: "host \<Rightarrow> int option \<Rightarrow> row list \<Rightarrow> string list \<Rightarrow> error + string list" where
  "collectReasons h visit [] reasons = Inr reasons"
| "collectReasons h visit (sale # sales) reasons =
     (case saleReasons h visit sale of
        Inl e \<Rightarrow> Inl e
      | Inr rs \<Rightarrow> collectReasons h visit sales (reasons @ rs))"

definition notConvertedDetails :: "host \<Rightarrow> int option \<Rightarrow> row list \<Rightarrow> error + string" where
  "notConvertedDetails h visit allSalesForClient =
     (if allSalesForClient = [] then Inr ''No purchase records found for this client''
      else (case collectReasons h visit allSalesForClient [] of
              Inl e \<Rightarrow> Inl e
            | Inr reasons \<Rightarrow>
                Inr (if reasons \<noteq> [] then ''Not converted: '' @ join reasons
                     else ''Has purchases but none meet conversion criteria'')))"

text \<open>
  The body of \<^verbatim>\<open>newClientData.forEach((client, index) => ...)\<close>: \<open>Inr None\<close> when the row is
  skipped, \<open>Inr (Some p)\<close> when \<open>p\<close> is pushed on \<^verbatim>\<open>processed\<close>, \<open>Inl\<close> when it raises.
  Reading \<^verbatim>\<open>sortedSales[0]\<close> of an empty array would give \<^verbatim>\<open>undefined\<close>, and the
  property access that follows would raise.
\<close>

definition processClient :: "host \<Rightarrow> row list \<Rightarrow> nat \<Rightarrow> row \<Rightarrow> error + processedClient option" where
  "processClient h salesData index client =
     (case isAllTrainers client of
        Inl e \<Rightarrow> Inl e
      | Inr skip \<Rightarrow>
          if skip then Inr None
          else
            (case validSales h (visitDate h client) (clientSales h salesData index client)
                    (clientErrors h client) of
               Inl e \<Rightarrow> Inl e
             | Inr (valid, errs) \<Rightarrow>
                 if valid \<noteq> []
                 then (case sortedSales h valid of
                         [] \<Rightarrow> Inl TypeError
                       | firstSale # _ \<Rightarrow>
                           Inr (Some (convertedClient h (visitDate h client) firstSale
                                        (newClient h index client errs))))
                 else (case notConvertedDetails h (visitDate h client)
                              (clientSales h salesData index client) of
                         Inl e \<Rightarrow> Inl e
                       | Inr details \<Rightarrow>
                           Inr (Some ((newClient h index client errs)
                                        \<lparr> conversionDetails := details \<rparr>)))))"

subsection \<open>All clients\<close>

fun forEachClient :: "host \<Rightarrow> row list \<Rightarrow> nat \<Rightarrow> row list \<Rightarrow> processedClient list
    \<Rightarrow> error + processedClient list" where
  "forEachClient h salesData index [] processed = Inr processed"
| "forEachClient h salesData index (client # clients) processed =
     (case processClient h salesData index client of
        Inl e \<Rightarrow> Inl e
      | Inr None \<Rightarrow> forEachClient h salesData (Suc index) clients processed
      | Inr (Some p) \<Rightarrow> forEachClient h salesData (Suc index) clients (processed @ [p]))"

definition processedData :: "host \<Rightarrow> row list \<Rightarrow> row list \<Rightarrow> error + processedClient list" where
  "processedData h newClientData salesData =
     (if newClientData = [] then Inr []
      else forEachClient h salesData 0 newClientData [])"

section \<open>Summary statistics\<close>

text \<open>
  The memo \<^verbatim>\<open>summaryStats\<close>. Its field \<^verbatim>\<open>converted\<close> is \<open>convertedCount\<close> here, the
  name being taken by the status.
\<close>

record summary =
  total :: nat
  convertedCount :: nat
  notConverted :: int
  conversionRate :: number
  totalRevenue :: number
  avgDaysToConversion :: number
  dataQualityIssues :: nat

definition summaryStats :: "processedClient list \<Rightarrow> summary" where
  "summaryStats processed =
     (let total' = length processed;
          converted' = length (filter (\<lambda>c. conversionStatus c = converted) processed);
          arr = filter (\<lambda>c. daysToConversion c \<noteq> None) processed
      in \<lparr> total = total',
           convertedCount = converted',
           notConverted = int total' - int converted',
           conversionRate =
             (if total' > 0 then jsTimes (jsDiv (of_nat converted') (of_nat total')) (Num 100)
              else Num 0),
           totalRevenue =
             foldl (\<lambda>sum c. jsAdd sum (valueOr0 (firstPurchaseValue c))) (Num 0) processed,
           avgDaysToConversion =
             foldl (\<lambda>sum c. jsAdd sum (jsDiv (of_int (daysOr0 (daysToConversion c)))
                                          (of_nat (length arr))))
               (Num 0) arr,
           dataQualityIssues = length (filter (\<lambda>c. length (validationErrors c) > 0) processed) \<rparr>)"

section \<open>The location roll-up of the query interface\<close>

text \<open>The fields of a teacher metric that the roll-up reads.\<close>

record teacherData =
  item_location :: string
  item_teacherName :: string
  item_newClients :: rat
  item_retainedClients :: rat
  item_convertedClients :: rat
  item_totalRevenue :: rat

record locationBucket =
  newClients :: rat
  retainedClients :: rat
  convertedClients :: rat
  revenue :: rat
  teachers :: "string set"

text \<open>
  One step of \<^verbatim>\<open>data.reduce((acc, item) => ..., {})\<close>; \<open>acc\<close> is the object keyed by
  location. A location that names a property every object inherits (such as
  \<^verbatim>\<open>constructor\<close>) is outside the model.
\<close>

definition addItem :: "(string \<rightharpoonup> locationBucket) \<Rightarrow> teacherData \<Rightarrow> (string \<rightharpoonup> locationBucket)" where
  "addItem acc item =
     (let b = (case acc (item_location item) of
                 None \<Rightarrow> \<lparr> newClients = 0, retainedClients = 0, convertedClients = 0,
                           revenue = 0, teachers = {} \<rparr>
               | Some b0 \<Rightarrow> b0)
      in acc(item_location item \<mapsto>
           b\<lparr> newClients := newClients b + item_newClients item,
              retainedClients := retainedClients b + item_retainedClients item,
              convertedClients := convertedClients b + item_convertedClients item,
              revenue := revenue b + item_totalRevenue item,
              teachers := insert (item_teacherName item) (teachers b) \<rparr>))"

definition locationStats :: "teacherData list \<Rightarrow> (string \<rightharpoonup> locationBucket)" where
  "locationStats data = foldl addItem Map.empty data"

text \<open>
  The object the \<^verbatim>\<open>map\<close> over \<^verbatim>\<open>Object.entries(locationStats)\<close> builds from one entry:
  the bucket spread, with the location and the derived fields. Its field
  \<^verbatim>\<open>conversionRate\<close> is \<open>locationConversionRate\<close> here, to tell it from the summary's.
\<close>

record locationRow = locationBucket +
  location :: string
  retentionRate :: number
  locationConversionRate :: number
  teacherCount :: nat

definition locationEntry :: "string \<Rightarrow> locationBucket \<Rightarrow> locationRow" where
  "locationEntry loc stats =
     locationBucket.extend stats
       \<lparr> location = loc,
         retentionRate =
           (if newClients stats > 0
            then jsTimes (jsDiv (retainedClients stats) (newClients stats)) (Num 100)
            else Num 0),
         locationConversionRate =
           (if newClients stats > 0
            then jsTimes (jsDiv (convertedClients stats) (newClients stats)) (Num 100)
            else Num 0),
         teacherCount = card (teachers stats) \<rparr>"

section \<open>A host for the examples\<close>

text \<open>
  One admissible host, used to run the classifier on concrete rows. Its \<^verbatim>\<open>Date.parse\<close>
  reads the date-only form \<^verbatim>\<open>YYYY-MM-DD\<close> of ECMA-262, which is midnight UTC of that day,
  and rejects every other string (engines accept more formats, each in its own way). Its
  \<^verbatim>\<open>Number::toString\<close> is exact on integers below \<open>10^21\<close> in magnitude, the numbers the
  examples contain, and prints the integral part of any other number. The currency
  format is a stand-in: no statement depends on it.
\<close>

definition daysFromCivil :: "int \<Rightarrow> int \<Rightarrow> int \<Rightarrow> int" where
  "daysFromCivil y m d =
     (let y' = (if m \<le> 2 then y - 1 else y);
          era = y' div 400;
          yoe = y' - era * 400;
          doy = (153 * (if m > 2 then m - 3 else m + 9) + 2) div 5 + d - 1;
          doe = yoe * 365 + yoe div 4 - yoe div 100 + doy
      in era * 146097 + doe - 719468)"

definition daysInMonth :: "int \<Rightarrow> int \<Rightarrow> int" where
  "daysInMonth y m =
     (if m = 2 then (if y mod 4 = 0 \<and> (y mod 100 \<noteq> 0 \<or> y mod 400 = 0) then 29 else 28)
      else if m = 4 \<or> m = 6 \<or> m = 9 \<or> m = 11 then 30
      else 31)"

definition isoDate :: "string \<Rightarrow> int option" where
  "isoDate s =
     (let ys = take 4 s; ms = take 2 (drop 5 s); ds = take 2 (drop 8 s);
          y = int (digitsVal ys); m = int (digitsVal ms); d = int (digitsVal ds)
      in if length s = 10 \<and> s ! 4 = CHR ''-'' \<and> s ! 7 = CHR ''-''
            \<and> list_all isDigit (ys @ ms @ ds)
            \<and> 1 \<le> m \<and> m \<le> 12 \<and> 1 \<le> d \<and> d \<le> daysInMonth y m
         then Some (daysFromCivil y m d * 86400000)
         else None)"

function showNat :: "nat \<Rightarrow> string" where
  "showNat n =
     (if n < 10 then [''0123456789'' ! n]
      else showNat (n div 10) @ [''0123456789'' ! (n mod 10)])"
  by pat_completeness auto
termination
  by (relation "measure id") auto

declare showNat.simps [simp del]

definition showInteger :: "rat \<Rightarrow> string" where
  "showInteger q = (if q < 0 then ''-'' @ showNat (nat (- \<lceil>q\<rceil>)) else showNat (nat \<lfloor>q\<rfloor>))"

fun showAmount :: "number \<Rightarrow> string" where
  "showAmount (Num q) = showInteger q"
| "showAmount _ = []"

definition exampleHost :: host where
  "exampleHost =
     \<lparr> dateParse = isoDate, numberToString = showInteger, safeFormatCurrency = showAmount \<rparr>"

text \<open>Building a row: \<open>obj [(k1, v1), ...]\<close> has the listed properties and no other.\<close>

definition obj :: "(string \<times> jsval) list \<Rightarrow> row" where
  "obj kvs k = (case map_of kvs k of None \<Rightarrow> JUndefined | Some v \<Rightarrow> v)"

section \<open>Notions derived from the code\<close>

text \<open>
  Pure readings of the functions above, used to state what they compute.
\<close>

text \<open>A raw value that is a string, the only kind with \<^verbatim>\<open>toLowerCase\<close>.\<close>

definition isText :: "jsval \<Rightarrow> bool" where
  "isText v = (case v of JString _ \<Rightarrow> True | _ \<Rightarrow> False)"

text \<open>The characters of a string value.\<close>

definition textOf :: "jsval \<Rightarrow> string" where
  "textOf v = (case v of JString s \<Rightarrow> s | _ \<Rightarrow> [])"

text \<open>What the filter callback pushes for one sale.\<close>

definition negativeErrors :: "host \<Rightarrow> row \<Rightarrow> string list" where
  "negativeErrors h sale = (if lt0 (saleValue h sale) then [''Negative sale value detected''] else [])"

text \<open>Whether the filter callback returns true for a sale; false also when it raises.\<close>

definition keeps :: "host \<Rightarrow> int option \<Rightarrow> row \<Rightarrow> bool" where
  "keeps h visit sale = (case validSale h visit sale of Inr (keep, _) \<Rightarrow> keep | Inl _ \<Rightarrow> False)"

text \<open>The reasons one sale contributes; none when the scan raises on it.\<close>

definition reasonsOf :: "host \<Rightarrow> int option \<Rightarrow> row \<Rightarrow> string list" where
  "reasonsOf h visit sale = (case saleReasons h visit sale of Inr rs \<Rightarrow> rs | Inl _ \<Rightarrow> [])"

text \<open>The explanation of a client that did not convert, when no sale raises.\<close>

definition detailsOf :: "host \<Rightarrow> int option \<Rightarrow> row list \<Rightarrow> string" where
  "detailsOf h visit sales =
     (if sales = [] then ''No purchase records found for this client''
      else if concat (map (reasonsOf h visit) sales) \<noteq> []
           then ''Not converted: '' @ join (concat (map (reasonsOf h visit) sales))
           else ''Has purchases but none meet conversion criteria'')"

text \<open>The rows the guard skips: the \<^verbatim>\<open>Teacher\<close> column is a string that, lower-cased, contains \<^verbatim>\<open>all trainers\<close>.\<close>

definition dropped :: "row \<Rightarrow> bool" where
  "dropped client =
     (case client ''Teacher'' of
        JString s \<Rightarrow> includesStr (toLowerCase s) ''all trainers''
      | _ \<Rightarrow> False)"

text \<open>The rows one client adds to \<^verbatim>\<open>processed\<close>: none or one.\<close>

definition rowsOf :: "host \<Rightarrow> row list \<Rightarrow> nat \<Rightarrow> row \<Rightarrow> processedClient list" where
  "rowsOf h salesData index client =
     (case processClient h salesData index client of
        Inr (Some p) \<Rightarrow> [p]
      | _ \<Rightarrow> [])"

text \<open>A client row on which the guard does not raise: its teacher is absent, empty, zero or a string.\<close>

definition teacherIsText :: "row \<Rightarrow> bool" where
  "teacherIsText client = (\<not> truthy (client ''Teacher'') \<or> isText (client ''Teacher''))"

text \<open>
  What ECMA-262 asks of the array a sort leaves, for a comparator that is consistent: a
  rearrangement of the elements, in the order of the comparator, where the elements that
  compare as equal keep their relative order.
\<close>

definition stableSorted :: "host \<Rightarrow> row list \<Rightarrow> row list \<Rightarrow> bool" where
  "stableSorted h valid ys =
     (mset ys = mset valid
      \<and> sorted_wrt (\<lambda>a b. compareDates h a b \<le> 0) ys
      \<and> (\<forall>a\<in>set valid. filter (\<lambda>b. compareDates h a b = 0) ys
                            = filter (\<lambda>b. compareDates h a b = 0) valid))"

section \<open>The runs an engine may make\<close>

text \<open>
  The classifier calls one built-in whose result ECMA-262 does not fix by an algorithm:
  \<^verbatim>\<open>Array.prototype.sort\<close>. When every sale to sort has a valid date the comparator is
  consistent, and the array the sort leaves must be a stable sorted arrangement; otherwise
  the order is implementation-defined, and any rearrangement may be left.
\<close>

definition sortOutcome :: "host \<Rightarrow> row list \<Rightarrow> row list \<Rightarrow> bool" where
  "sortOutcome h valid ys =
     (if \<forall>s\<in>set valid. saleDate h s \<noteq> None
      then stableSorted h valid ys
      else mset ys = mset valid)"

text \<open>
  The loop body once more, with the sort as a relation: \<open>r\<close> is an outcome of the body when
  it is what the body gives for some array the sort may leave. The rest is \<open>processClient\<close>
  word for word.
\<close>

definition clientOutcome :: "host \<Rightarrow> row list \<Rightarrow> nat \<Rightarrow> row
    \<Rightarrow> error + processedClient option \<Rightarrow> bool" where
  "clientOutcome h salesData index client r =
     (case isAllTrainers client of
        Inl e \<Rightarrow> r = Inl e
      | Inr skip \<Rightarrow>
          if skip then r = Inr None
          else
            (case validSales h (visitDate h client) (clientSales h salesData index client)
                    (clientErrors h client) of
               Inl e \<Rightarrow> r = Inl e
             | Inr (valid, errs) \<Rightarrow>
                 if valid \<noteq> []
                 then (\<exists>ys. sortOutcome h valid ys
                         \<and> r = (case ys of
                                  [] \<Rightarrow> Inl TypeError
                                | firstSale # _ \<Rightarrow>
                                    Inr (Some (convertedClient h (visitDate h client) firstSale
                                                 (newClient h index client errs)))))
                 else r = (case notConvertedDetails h (visitDate h client)
                                  (clientSales h salesData index client) of
                             Inl e \<Rightarrow> Inl e
                           | Inr details \<Rightarrow>
                               Inr (Some ((newClient h index client errs)
                                            \<lparr> conversionDetails := details \<rparr>)))))"

text \<open>The loop over the clients, one rule for each way the body ends.\<close>

inductive loopOutcome :: "host \<Rightarrow> row list \<Rightarrow> nat \<Rightarrow> row list \<Rightarrow> processedClient list
    \<Rightarrow> error + processedClient list \<Rightarrow> bool"
  for h :: host and salesData :: "row list" where
  finished: "loopOutcome h salesData index [] processed (Inr processed)"
| raised: "clientOutcome h salesData index client (Inl e) \<Longrightarrow>
     loopOutcome h salesData index (client # clients) processed (Inl e)"
| skipped: "clientOutcome h salesData index client (Inr None) \<Longrightarrow>
     loopOutcome h salesData (Suc index) clients processed r \<Longrightarrow>
     loopOutcome h salesData index (client # clients) processed r"
| pushed: "clientOutcome h salesData index client (Inr (Some p)) \<Longrightarrow>
     loopOutcome h salesData (Suc index) clients (processed @ [p]) r \<Longrightarrow>
     loopOutcome h salesData index (client # clients) processed r"

definition runOutcome :: "host \<Rightarrow> row list \<Rightarrow> row list \<Rightarrow> error + processedClient list \<Rightarrow> bool" where
  "runOutcome h newClientData salesData r =
     (if newClientData = [] then r = Inr []
      else loopOutcome h salesData 0 newClientData [] r)"

section \<open>Example rows\<close>

text \<open>
  The client of the scenarios: email \<^verbatim>\<open>e@x.com\<close>, first visit on 2024-01-01. Its
  purchases share the email; scenario A is a class pack of 1000 bought on 2024-01-05.
\<close>

definition scenario_client :: row where
  "scenario_client =
     obj [(''Member ID'', JString ''M1''), (''First name'', JString ''Eve''),
          (''Email'', JString ''e@x.com''), (''First visit at'', JString ''2024-01-01''),
          (''Teacher'', JString ''Asha'')]"

definition scenarioA_sale :: row where
  "scenarioA_sale =
     obj [(''Customer email'', JString ''e@x.com''), (''Date'', JString ''2024-01-05''),
          (''Sale value'', JNumber 1000), (''Category'', JString ''class''),
          (''Item'', JString ''Class pack''), (''Refunded'', JString ''NO'')]"


text \<open>A sale that shares the member ID of the scenario client and not the email.\<close>

definition memberOnly_sale :: row where
  "memberOnly_sale =
     obj [(''Customer email'', JString ''other@x.com''), (''Member ID'', JString ''M1'')]"

text \<open>A client and a sale whose emails differ in case only, with different member IDs.\<close>

definition upper_client :: row where
  "upper_client =
     obj [(''Member ID'', JString ''M7''), (''First name'', JString ''Una''),
          (''Email'', JString ''E@X.com''), (''First visit at'', JString ''2024-01-01'')]"

definition lower_sale :: row where
  "lower_sale =
     obj [(''Customer email'', JString ''e@x.com''), (''Member ID'', JString ''M9'')]"







text \<open>
  Two report rows: one whose teacher is the aggregate label itself, and one whose teacher
  only contains it, in capitals.
\<close>

definition all_trainers_row :: row where
  "all_trainers_row =
     obj [(''First name'', JString ''Total''), (''Teacher'', JString ''All Trainers''),
          (''First visit at'', JString ''2024-01-01'')]"

definition totals_row :: row where
  "totals_row =
     obj [(''Member ID'', JString ''M3''), (''First name'', JString ''Sam''),
          (''Email'', JString ''s@x.com''), (''First visit at'', JString ''2024-01-02''),
          (''Teacher'', JString ''ALL TRAINERS (total)'')]"

text \<open>A teacher metric of a location with no new client.\<close>

definition empty_studio :: teacherData where
  "empty_studio =
     \<lparr> item_location = ''Bandra'', item_teacherName = ''Asha'', item_newClients = 0,
       item_retainedClients = 0, item_convertedClients = 0, item_totalRevenue = 0 \<rparr>"

text \<open>
  Two more purchases of the scenario client: one on the day of scenario A, one four days
  later.
\<close>

definition later_sale :: row where
  "later_sale =
     obj [(''Customer email'', JString ''e@x.com''), (''Date'', JString ''2024-01-09''),
          (''Sale value'', JNumber 2500), (''Category'', JString ''membership''),
          (''Item'', JString ''Monthly unlimited''), (''Refunded'', JString ''NO'')]"

definition sameDay_sale :: row where
  "sameDay_sale =
     obj [(''Customer email'', JString ''e@x.com''), (''Date'', JString ''2024-01-05''),
          (''Sale value'', JNumber 800), (''Category'', JString ''private''),
          (''Item'', JString ''Private session''), (''Refunded'', JString ''NO'')]"



section \<open>The words of the specification\<close>

text \<open>
  The specification matches on the normalized email: lower-cased and trimmed (of spaces,
  here). These definitions follow its words, to be compared with \<open>matchingSales\<close>.
\<close>

definition trim :: "string \<Rightarrow> string" where
  "trim s = rev (dropWhile (\<lambda>c. c = CHR '' '') (rev (dropWhile (\<lambda>c. c = CHR '' '') s)))"

fun normalizeEmail :: "jsval \<Rightarrow> jsval" where
  "normalizeEmail (JString s) = JString (toLowerCase (trim s))"
| "normalizeEmail v = v"

definition specCandidate :: "jsval \<Rightarrow> jsval \<Rightarrow> row \<Rightarrow> bool" where
  "specCandidate email' memberID' sale =
     (normalizeEmail (sale ''Customer email'') = normalizeEmail email'
      \<or> normalizeEmail (sale ''Paying Customer email'') = normalizeEmail email'
      \<or> normalizeEmail (sale ''email'') = normalizeEmail email'
      \<or> sale ''Member ID'' = memberID' \<or> sale ''memberID'' = memberID')"




section \<open>Properties of the parts\<close>

subsection \<open>Raw values and numbers\<close>

lemma error_eq [simp]: "(e::error) = e'"
  by (cases e; cases e') simp

lemma toLowerCaseOf_Inr: "toLowerCaseOf v = Inr t \<longleftrightarrow> isText v \<and> t = toLowerCase (textOf v)"
  by (cases v) (auto simp: isText_def textOf_def)

lemma toLowerCaseOf_text: "isText v \<Longrightarrow> toLowerCaseOf v = Inr (toLowerCase (textOf v))"
  by (cases v) (simp_all add: isText_def textOf_def)

lemma toLowerCaseOf_Inl: "toLowerCaseOf v = Inl e \<longleftrightarrow> \<not> isText v"
  by (cases v; cases e) (auto simp: isText_def)

lemma includesStr_Nil [simp]: "includesStr [] (c # cs) = False"
  by simp

lemma dateGe_Some: "dateGe a b \<longleftrightarrow> (\<exists>t v. a = Some t \<and> b = Some v \<and> v \<le> t)"
  by (cases a; cases b) auto

lemma dateGe_None [simp]: "dateGe d None = False"
  by (cases d) simp_all

lemma dateLt_None [simp]: "dateLt d None = False"
  by (cases d) simp_all

lemma parseFloat_cases: "parseFloat s = NaN \<or> (\<exists>q. parseFloat s = Num q)"
  by (auto simp: parseFloat_def split: list.splits option.splits)

lemma gt0_saleValue: "gt0 (saleValue h sale) \<Longrightarrow> \<exists>q. saleValue h sale = Num q \<and> 0 < q"
  using parseFloat_cases[of "stripNonNumeric
       (toString h (lor (lor (sale ''Sale value'') (sale ''value'')) (JString ''0'')))"]
  by (auto simp: saleValue_def)

lemma jsAdd_zero: "jsAdd s (Num 0) = s"
  by (cases s) simp_all

lemma jsDiv_Num: "b \<noteq> 0 \<Longrightarrow> jsDiv a b = Num (a / b)"
  by (simp add: jsDiv_def)


subsection \<open>The filter\<close>

text \<open>
  The filter returns exactly when every sale it is given holds text as category and
  item; it then keeps the sales \<open>keeps\<close> accepts and pushes one error for each negative
  value.
\<close>

lemma validSale_Inr:
  "validSale h visit sale = Inr (keep, pushed) \<longleftrightarrow>
     isText (sale_category sale) \<and> isText (sale_item sale)
     \<and> keep = (gt0 (saleValue h sale)
               \<and> \<not> includesStr (toLowerCase (textOf (sale_item sale))) ''2 for 1''
               \<and> toLowerCase (textOf (sale_category sale)) \<noteq> ''retail''
               \<and> saleDate h sale \<noteq> None \<and> dateGe (saleDate h sale) visit
               \<and> sale ''Refunded'' \<noteq> JString ''YES'')
     \<and> pushed = negativeErrors h sale"
  unfolding validSale_def negativeErrors_def Let_def
  by (auto simp: toLowerCaseOf_Inr toLowerCaseOf_Inl split: sum.splits)

lemma validSale_Inl:
  "validSale h visit sale = Inl e \<longleftrightarrow> \<not> (isText (sale_category sale) \<and> isText (sale_item sale))"
  unfolding validSale_def Let_def
  by (cases e) (auto simp: toLowerCaseOf_Inr toLowerCaseOf_Inl split: sum.splits)

lemma validSales_Inr:
  "validSales h visit sales errs = Inr (kept, errs') \<Longrightarrow>
     kept = filter (keeps h visit) sales
     \<and> errs' = errs @ concat (map (negativeErrors h) sales)
     \<and> (\<forall>s\<in>set sales. isText (sale_category s) \<and> isText (sale_item s))"
proof (induction sales arbitrary: errs kept errs')
  case Nil
  then show ?case by simp
next
  case (Cons sale sales)
  from Cons.prems obtain keep pushed kept0 where
    v: "validSale h visit sale = Inr (keep, pushed)"
    and r: "validSales h visit sales (errs @ pushed) = Inr (kept0, errs')"
    and k: "kept = (if keep then sale # kept0 else kept0)"
    by (auto split: sum.splits prod.splits)
  from v have p: "pushed = negativeErrors h sale" and t: "isText (sale_category sale)" "isText (sale_item sale)"
    by (simp_all add: validSale_Inr)
  from v have kk: "keeps h visit sale = keep" by (simp add: keeps_def)
  from Cons.IH[OF r] p t k kk show ?case by simp
qed

lemma validSales_total:
  "\<forall>s\<in>set sales. isText (sale_category s) \<and> isText (sale_item s) \<Longrightarrow>
     \<exists>kept errs'. validSales h visit sales errs = Inr (kept, errs')"
proof (induction sales arbitrary: errs)
  case Nil
  then show ?case by simp
next
  case (Cons sale sales)
  then obtain keep pushed where v: "validSale h visit sale = Inr (keep, pushed)"
    by (cases "validSale h visit sale") (auto simp: validSale_Inl)
  from Cons.IH[of "errs @ pushed"] Cons.prems obtain kept errs' where
    "validSales h visit sales (errs @ pushed) = Inr (kept, errs')" by auto
  with v show ?case by simp
qed

lemma keeps_iff:
  "keeps h visit sale \<longleftrightarrow>
     isText (sale_category sale) \<and> isText (sale_item sale)
     \<and> gt0 (saleValue h sale)
     \<and> \<not> includesStr (toLowerCase (textOf (sale_item sale))) ''2 for 1''
     \<and> toLowerCase (textOf (sale_category sale)) \<noteq> ''retail''
     \<and> saleDate h sale \<noteq> None \<and> dateGe (saleDate h sale) visit
     \<and> sale ''Refunded'' \<noteq> JString ''YES''"
proof (cases "validSale h visit sale")
  case (Inl e)
  then have k: "\<not> keeps h visit sale" by (simp add: keeps_def)
  from Inl have "\<not> (isText (sale_category sale) \<and> isText (sale_item sale))"
    by (simp add: validSale_Inl)
  with k show ?thesis by blast
next
  case (Inr r)
  then obtain keep pushed where v: "validSale h visit sale = Inr (keep, pushed)" by (cases r) simp
  then have k: "keeps h visit sale = keep" by (simp add: keeps_def)
  from v show ?thesis unfolding k by (simp add: validSale_Inr)
qed

lemma keeps_dates: "keeps h visit sale \<Longrightarrow> \<exists>t v. saleDate h sale = Some t \<and> visit = Some v \<and> v \<le> t"
  by (simp add: keeps_iff dateGe_Some)





lemma set_clientSales: "set (clientSales h salesData index client) \<subseteq> set salesData"
  by (auto simp: clientSales_def matchingSales_def)

subsection \<open>The reasons\<close>

lemma saleReasons_Inr:
  "isText (sale_category sale) \<Longrightarrow> isText (sale_item sale) \<Longrightarrow>
   saleReasons h visit sale =
     Inr ((if le0 (saleValue h sale) then [''Zero or negative sale value''] else [])
          @ (if includesStr (toLowerCase (textOf (sale_item sale))) ''2 for 1''
             then [''Excluded product (2 For 1)''] else [])
          @ (if toLowerCase (textOf (sale_category sale)) = ''retail''
             then [''Retail category excluded''] else [])
          @ (if dateLt (saleDate h sale) visit then [''Purchase before first visit''] else [])
          @ (if sale ''Refunded'' = JString ''YES'' then [''Purchase was refunded''] else []))"
  by (simp add: saleReasons_def toLowerCaseOf_text split del: if_split)

lemma saleReasons_reasonsOf:
  "isText (sale_category sale) \<Longrightarrow> isText (sale_item sale) \<Longrightarrow>
   saleReasons h visit sale = Inr (reasonsOf h visit sale)"
  by (simp add: reasonsOf_def saleReasons_Inr)


lemma collectReasons_text:
  "\<forall>s\<in>set sales. isText (sale_category s) \<and> isText (sale_item s) \<Longrightarrow>
   collectReasons h visit sales reasons = Inr (reasons @ concat (map (reasonsOf h visit) sales))"
  by (induction sales arbitrary: reasons) (simp_all add: saleReasons_reasonsOf)

lemma notConvertedDetails_text:
  "\<forall>s\<in>set sales. isText (sale_category s) \<and> isText (sale_item s) \<Longrightarrow>
   notConvertedDetails h visit sales = Inr (detailsOf h visit sales)"
  by (simp add: notConvertedDetails_def detailsOf_def collectReasons_text)

subsection \<open>The sort\<close>

text \<open>
  The head of the sorted list is the first element of the least key; and the sorted
  list is the only stable sorted arrangement, so the insertion sort stands for whatever
  algorithm an engine runs.
\<close>

lemma set_insertBy: "set (insertBy cmp x ys) = insert x (set ys)"
  by (induction ys) auto

lemma set_sortBy: "set (sortBy cmp xs) = set xs"
  by (induction xs) (simp_all add: sortBy_def set_insertBy)

lemma sortBy_Nil_iff: "sortBy cmp xs = [] \<longleftrightarrow> xs = []"
  by (metis set_sortBy set_empty)

lemma sortBy_Cons: "sortBy cmp (x # xs) = insertBy cmp x (sortBy cmp xs)"
  by (simp add: sortBy_def)





lemma sortedSales_single: "sortedSales h [sale] = [sale]"
  by (simp add: sortedSales_def sortBy_def)

lemma insertBy_insort_key:
  fixes key :: "'a \<Rightarrow> int"
  assumes "\<forall>a\<in>set (x # ys). \<forall>b\<in>set (x # ys). (cmp a b \<le> 0) = (key a \<le> key b)"
  shows "insertBy cmp x ys = insort_key key x ys"
  using assms by (induction ys) auto

lemma sortBy_sort_key:
  fixes key :: "'a \<Rightarrow> int"
  assumes "\<forall>a\<in>set xs. \<forall>b\<in>set xs. (cmp a b \<le> 0) = (key a \<le> key b)"
  shows "sortBy cmp xs = sort_key key xs"
  using assms
proof (induction xs)
  case Nil
  then show ?case by (simp add: sortBy_def)
next
  case (Cons x xs)
  then have ih: "sortBy cmp xs = sort_key key xs" by simp
  have "\<forall>a\<in>set (x # sort_key key xs). \<forall>b\<in>set (x # sort_key key xs).
          (cmp a b \<le> 0) = (key a \<le> key b)"
    using Cons.prems by simp
  from insertBy_insort_key[OF this] ih show ?case by (simp add: sortBy_Cons)
qed

lemma sortedSales_unique:
  assumes d: "\<forall>s\<in>set valid. \<exists>t. saleDate h s = Some t"
    and st: "stableSorted h valid ys"
  shows "ys = sortedSales h valid"
proof -
  let ?key = "\<lambda>s. case saleDate h s of Some t \<Rightarrow> t | None \<Rightarrow> (0::int)"
  from st have m: "mset ys = mset valid"
    and so: "sorted_wrt (\<lambda>a b. compareDates h a b \<le> 0) ys"
    and fi: "\<forall>a\<in>set valid. filter (\<lambda>b. compareDates h a b = 0) ys
                            = filter (\<lambda>b. compareDates h a b = 0) valid"
    by (simp_all add: stableSorted_def)
  from m have se: "set ys = set valid" by (rule mset_eq_setD)
  have cmp: "compareDates h a b = ?key a - ?key b"
    if "a \<in> set valid" and "b \<in> set valid" for a b
  proof -
    from d that obtain ta tb where "saleDate h a = Some ta" and "saleDate h b = Some tb"
      by blast
    then show ?thesis by (simp add: compareDates_def)
  qed
  have le: "\<forall>a\<in>set valid. \<forall>b\<in>set valid. (compareDates h a b \<le> 0) = (?key a \<le> ?key b)"
    using cmp by simp
  have s1: "sorted (map ?key ys)"
  proof -
    have "sorted_wrt (\<lambda>a b. ?key a \<le> ?key b) ys"
      by (rule sorted_wrt_mono_rel[OF _ so]) (simp add: se le)
    then show ?thesis by (simp add: sorted_map)
  qed
  have s2: "\<And>k. k \<in> set ys \<Longrightarrow>
              filter (\<lambda>x. ?key k = ?key x) ys = filter (\<lambda>x. ?key k = ?key x) valid"
  proof -
    fix k assume k: "k \<in> set ys"
    then have kv: "k \<in> set valid" by (simp add: se)
    have "filter (\<lambda>x. ?key k = ?key x) ys = filter (\<lambda>b. compareDates h k b = 0) ys"
      by (rule filter_cong[OF refl]) (simp add: cmp[OF kv] se)
    also have "\<dots> = filter (\<lambda>b. compareDates h k b = 0) valid" using fi kv by blast
    also have "\<dots> = filter (\<lambda>x. ?key k = ?key x) valid"
      by (rule filter_cong[OF refl]) (simp add: cmp[OF kv])
    finally show "filter (\<lambda>x. ?key k = ?key x) ys = filter (\<lambda>x. ?key k = ?key x) valid" .
  qed
  from properties_for_sort_key[OF m s2 s1] have "sort_key ?key valid = ys" .
  moreover have "sortedSales h valid = sort_key ?key valid"
    unfolding sortedSales_def by (rule sortBy_sort_key[OF le])
  ultimately show ?thesis by simp
qed

subsection \<open>One client\<close>

lemma isAllTrainers_Inr: "isAllTrainers client = Inr b \<Longrightarrow> b = dropped client"
  unfolding isAllTrainers_def dropped_def
  by (cases "client ''Teacher''") (auto simp: toLowerCase_def split: if_splits)

lemma isAllTrainers_text:
  "\<not> truthy (client ''Teacher'') \<or> isText (client ''Teacher'') \<Longrightarrow>
   isAllTrainers client = Inr (dropped client)"
  unfolding isAllTrainers_def dropped_def
  by (cases "client ''Teacher''") (auto simp: toLowerCase_def isText_def)

lemma isAllTrainers_teacherIsText:
  "teacherIsText client \<Longrightarrow> isAllTrainers client = Inr (dropped client)"
  unfolding teacherIsText_def by (rule isAllTrainers_text)

lemma newClient_fields:
  "conversionStatus (newClient h index client errs) = not_converted"
  "validationErrors (newClient h index client errs) = errs"
  "firstPurchaseDate (newClient h index client errs) = None"
  "firstPurchaseProduct (newClient h index client errs) = None"
  "firstPurchaseValue (newClient h index client errs) = None"
  "daysToConversion (newClient h index client errs) = None"
  by (simp_all add: newClient_def)

lemma convertedClient_fields:
  "conversionStatus (convertedClient h visit firstSale p) = converted"
  "firstPurchaseDate (convertedClient h visit firstSale p) = Some (sale_date firstSale)"
  "firstPurchaseProduct (convertedClient h visit firstSale p) = Some (sale_item firstSale)"
  "firstPurchaseValue (convertedClient h visit firstSale p) = Some (saleValue h firstSale)"
  "validationErrors (convertedClient h visit firstSale p) = validationErrors p"
  "saleDate h firstSale = Some t \<Longrightarrow>
     daysToConversion (convertedClient h (Some v) firstSale p) = Some (daysBetween t v)"
  by (simp_all add: convertedClient_def Let_def)

lemma processClient_converted:
  assumes "isAllTrainers client = Inr False"
    and "validSales h (visitDate h client) (clientSales h salesData index client)
           (clientErrors h client) = Inr (valid, errs)"
    and "valid \<noteq> []"
  shows "processClient h salesData index client =
           Inr (Some (convertedClient h (visitDate h client) (hd (sortedSales h valid))
                        (newClient h index client errs)))"
proof -
  have "sortedSales h valid \<noteq> []" using assms(3) by (simp add: sortedSales_def sortBy_Nil_iff)
  then obtain f fs where "sortedSales h valid = f # fs" by (cases "sortedSales h valid") auto
  with assms show ?thesis by (simp add: processClient_def)
qed

lemma processClient_not_converted:
  assumes "isAllTrainers client = Inr False"
    and "validSales h (visitDate h client) (clientSales h salesData index client)
           (clientErrors h client) = Inr ([], errs)"
  shows "processClient h salesData index client =
           Inr (Some ((newClient h index client errs)
                  \<lparr> conversionDetails :=
                      detailsOf h (visitDate h client) (clientSales h salesData index client) \<rparr>))"
proof -
  from validSales_Inr[OF assms(2)]
  have "\<forall>s\<in>set (clientSales h salesData index client). isText (sale_category s) \<and> isText (sale_item s)"
    by blast
  then have "notConvertedDetails h (visitDate h client) (clientSales h salesData index client)
             = Inr (detailsOf h (visitDate h client) (clientSales h salesData index client))"
    by (rule notConvertedDetails_text)
  with assms show ?thesis by (simp add: processClient_def)
qed

lemma processClient_dropped:
  "isAllTrainers client = Inr True \<Longrightarrow> processClient h salesData index client = Inr None"
  by (simp add: processClient_def)

lemma processClient_returns:
  assumes "isAllTrainers client = Inr False"
    and "validSales h (visitDate h client) (clientSales h salesData index client)
           (clientErrors h client) = Inr (valid, errs)"
  shows "\<exists>p. processClient h salesData index client = Inr (Some p)
           \<and> validationErrors p = errs
           \<and> (conversionStatus p = converted \<longleftrightarrow> valid \<noteq> [])"
proof (cases "valid = []")
  case True
  with assms(2) have r: "validSales h (visitDate h client) (clientSales h salesData index client)
           (clientErrors h client) = Inr ([], errs)" by simp
  show ?thesis
    unfolding processClient_not_converted[OF assms(1) r] using True
    by (simp add: newClient_fields)
next
  case False
  show ?thesis
    unfolding processClient_converted[OF assms False] using False
    by (simp add: convertedClient_fields newClient_fields)
qed

lemma processClient_text:
  assumes "teacherIsText client"
    and "\<forall>s\<in>set salesData. isText (sale_category s) \<and> isText (sale_item s)"
  shows "\<exists>r. processClient h salesData index client = Inr r \<and> (r = None \<longleftrightarrow> dropped client)"
proof (cases "dropped client")
  case True
  with isAllTrainers_teacherIsText[OF assms(1)] have "isAllTrainers client = Inr True" by simp
  from processClient_dropped[OF this] True show ?thesis by simp
next
  case False
  with isAllTrainers_teacherIsText[OF assms(1)] have a: "isAllTrainers client = Inr False" by simp
  from assms(2) set_clientSales
  have "\<forall>s\<in>set (clientSales h salesData index client). isText (sale_category s) \<and> isText (sale_item s)"
    by blast
  from validSales_total[OF this] obtain valid errs where
    "validSales h (visitDate h client) (clientSales h salesData index client)
       (clientErrors h client) = Inr (valid, errs)"
    by blast
  from processClient_returns[OF a this] False show ?thesis by auto
qed

lemma processClient_Some:
  assumes "processClient h salesData index client = Inr (Some p)"
  shows "\<exists>valid errs. isAllTrainers client = Inr False
           \<and> validSales h (visitDate h client) (clientSales h salesData index client)
               (clientErrors h client) = Inr (valid, errs)"
proof (cases "isAllTrainers client")
  case (Inl e)
  with assms show ?thesis by (simp add: processClient_def)
next
  case (Inr skip)
  with assms have s: "\<not> skip" by (auto simp: processClient_def split: if_splits)
  show ?thesis
  proof (cases "validSales h (visitDate h client) (clientSales h salesData index client)
                  (clientErrors h client)")
    case (Inl e)
    with assms Inr s show ?thesis by (simp add: processClient_def)
  next
    case r: (Inr ve)
    then show ?thesis using Inr s by (cases ve) simp
  qed
qed

lemma processClient_row:
  assumes "processClient h salesData index client = Inr (Some p)"
  shows "(conversionStatus p = converted
            \<and> firstPurchaseDate p \<noteq> None \<and> firstPurchaseProduct p \<noteq> None
            \<and> (\<exists>q. firstPurchaseValue p = Some (Num q) \<and> 0 < q)
            \<and> daysToConversion p \<noteq> None)
         \<or> (conversionStatus p = not_converted
            \<and> firstPurchaseDate p = None \<and> firstPurchaseProduct p = None
            \<and> firstPurchaseValue p = None \<and> daysToConversion p = None)"
proof -
  from processClient_Some[OF assms] obtain valid errs where
    a: "isAllTrainers client = Inr False"
    and r: "validSales h (visitDate h client) (clientSales h salesData index client)
              (clientErrors h client) = Inr (valid, errs)"
    by blast
  show ?thesis
  proof (cases "valid = []")
    case True
    with r have r0: "validSales h (visitDate h client) (clientSales h salesData index client)
              (clientErrors h client) = Inr ([], errs)" by simp
    from assms have "p = (newClient h index client errs)
                  \<lparr> conversionDetails :=
                      detailsOf h (visitDate h client) (clientSales h salesData index client) \<rparr>"
      unfolding processClient_not_converted[OF a r0] by simp
    then show ?thesis by (simp add: newClient_fields)
  next
    case False
    let ?f = "hd (sortedSales h valid)"
    from assms have p: "p = convertedClient h (visitDate h client) ?f (newClient h index client errs)"
      unfolding processClient_converted[OF a r False] by simp
    have "?f \<in> set (sortedSales h valid)"
      using False by (simp add: sortedSales_def sortBy_Nil_iff)
    then have "?f \<in> set valid" by (simp add: sortedSales_def set_sortBy)
    with validSales_Inr[OF r] have k: "keeps h (visitDate h client) ?f" by simp
    from keeps_dates[OF k] obtain t v where
      t: "saleDate h ?f = Some t" and v: "visitDate h client = Some v" by blast
    from k have "gt0 (saleValue h ?f)" by (simp add: keeps_iff)
    from gt0_saleValue[OF this] obtain q where q: "saleValue h ?f = Num q" "0 < q" by blast
    have d: "daysToConversion p = Some (daysBetween t v)"
      unfolding p v by (rule convertedClient_fields(6)[OF t])
    from q d show ?thesis unfolding p by (simp add: convertedClient_fields)
  qed
qed

lemma rowsOf_text:
  assumes "teacherIsText client"
    and "\<forall>s\<in>set salesData. isText (sale_category s) \<and> isText (sale_item s)"
  shows "length (rowsOf h salesData index client) = (if dropped client then 0 else 1)"
proof -
  from processClient_text[OF assms] obtain r where
    r: "processClient h salesData index client = Inr r" and d: "r = None \<longleftrightarrow> dropped client"
    by blast
  show ?thesis using d by (cases r) (simp_all add: rowsOf_def r)
qed

lemma rowsOf_row:
  "p \<in> set (rowsOf h salesData index client) \<Longrightarrow>
   processClient h salesData index client = Inr (Some p)"
  by (auto simp: rowsOf_def split: sum.splits option.splits)

subsection \<open>All clients\<close>

lemma processedData_single:
  "processClient h salesData 0 client = Inr (Some p) \<Longrightarrow>
   processedData h [client] salesData = Inr [p]"
  by (simp add: processedData_def)

lemma forEachClient_Inr:
  "forEachClient h salesData i clients processed = Inr out \<Longrightarrow>
     out = processed @ concat (map (\<lambda>(k, c). rowsOf h salesData k c) (enumerate i clients))"
proof (induction clients arbitrary: i processed)
  case Nil
  then show ?case by simp
next
  case (Cons c cs)
  show ?case
  proof (cases "processClient h salesData i c")
    case (Inl e)
    with Cons.prems show ?thesis by simp
  next
    case (Inr r)
    show ?thesis
    proof (cases r)
      case None
      with Inr Cons.prems have "forEachClient h salesData (Suc i) cs processed = Inr out" by simp
      from Cons.IH[OF this] Inr None show ?thesis by (simp add: rowsOf_def)
    next
      case (Some p)
      with Inr Cons.prems have "forEachClient h salesData (Suc i) cs (processed @ [p]) = Inr out"
        by simp
      from Cons.IH[OF this] Inr Some show ?thesis by (simp add: rowsOf_def)
    qed
  qed
qed

lemma forEachClient_total:
  "\<forall>(k, c)\<in>set (enumerate i clients). \<exists>r. processClient h salesData k c = Inr r \<Longrightarrow>
   \<exists>out. forEachClient h salesData i clients processed = Inr out"
proof (induction clients arbitrary: i processed)
  case Nil
  then show ?case by simp
next
  case (Cons c cs)
  from Cons.prems obtain r where r: "processClient h salesData i c = Inr r" by auto
  from Cons.prems have rest: "\<forall>(k, c)\<in>set (enumerate (Suc i) cs). \<exists>r. processClient h salesData k c = Inr r"
    by simp
  show ?case
  proof (cases r)
    case None
    with r Cons.IH[OF rest, of processed] show ?thesis by simp
  next
    case (Some p)
    with r Cons.IH[OF rest, of "processed @ [p]"] show ?thesis by simp
  qed
qed

lemma length_concat_rows:
  "\<forall>(k, c)\<in>set (enumerate i clients). length (f k c) = (if P c then 0 else 1) \<Longrightarrow>
   length (concat (map (\<lambda>(k, c). f k c) (enumerate i clients)))
   = length (filter (\<lambda>c. \<not> P c) clients)"
  by (induction clients arbitrary: i) auto

lemma processedData_rows:
  assumes "processedData h newClientData salesData = Inr out" and "p \<in> set out"
  shows "\<exists>index client. processClient h salesData index client = Inr (Some p)"
proof (cases "newClientData = []")
  case True
  with assms show ?thesis by (simp add: processedData_def)
next
  case False
  with assms(1) have "forEachClient h salesData 0 newClientData [] = Inr out"
    by (simp add: processedData_def)
  from forEachClient_Inr[OF this] assms(2)
  obtain k c where "p \<in> set (rowsOf h salesData k c)" by auto
  from rowsOf_row[OF this] show ?thesis by blast
qed

subsection \<open>Statistics\<close>

lemma foldl_jsAdd_filter:
  "\<forall>c\<in>set xs. \<not> P c \<longrightarrow> f c = Num 0 \<Longrightarrow>
   foldl (\<lambda>sum c. jsAdd sum (f c)) a xs = foldl (\<lambda>sum c. jsAdd sum (f c)) a (filter P xs)"
  by (induction xs arbitrary: a) (simp_all add: jsAdd_zero)

lemma foldl_jsAdd_Num:
  "\<forall>c\<in>set xs. \<exists>q. f c = Num q \<Longrightarrow>
   \<exists>q. foldl (\<lambda>sum c. jsAdd sum (f c)) (Num a) xs = Num q"
proof (induction xs arbitrary: a)
  case Nil
  then show ?case by simp
next
  case (Cons x xs)
  then obtain q where "f x = Num q" by auto
  with Cons.IH[of "a + q"] Cons.prems show ?case by simp
qed

lemma summaryStats_fields:
  "total (summaryStats processed) = length processed"
  "conversionRate (summaryStats processed) =
     (if length processed > 0
      then jsTimes (jsDiv (of_nat (length (filter (\<lambda>c. conversionStatus c = converted) processed)))
                     (of_nat (length processed))) (Num 100)
      else Num 0)"
  "avgDaysToConversion (summaryStats processed) =
     foldl (\<lambda>sum c. jsAdd sum (jsDiv (of_int (daysOr0 (daysToConversion c)))
                (of_nat (length (filter (\<lambda>c. daysToConversion c \<noteq> None) processed)))))
       (Num 0) (filter (\<lambda>c. daysToConversion c \<noteq> None) processed)"
  by (simp_all add: summaryStats_def Let_def)

lemma foldl_avg_Num:
  "n \<noteq> 0 \<Longrightarrow> \<exists>q. foldl (\<lambda>sum c. jsAdd sum (jsDiv (f c) n)) (Num a) xs = Num q"
proof (induction xs arbitrary: a)
  case Nil
  then show ?case by simp
next
  case (Cons x xs)
  from Cons.IH[OF Cons.prems, of "a + f x / n"] Cons.prems show ?case
    by (simp add: jsDiv_Num)
qed

lemma avgDays_Num: "\<exists>q. avgDaysToConversion (summaryStats processed) = Num q"
proof (cases "filter (\<lambda>c. daysToConversion c \<noteq> None) processed = []")
  case True
  then show ?thesis by (simp add: summaryStats_fields del: not_None_eq)
next
  case False
  then have "(of_nat (length (filter (\<lambda>c. daysToConversion c \<noteq> None) processed)) :: rat) \<noteq> 0"
    by simp
  from foldl_avg_Num[OF this, of "\<lambda>c. of_int (daysOr0 (daysToConversion c))" 0
      "filter (\<lambda>c. daysToConversion c \<noteq> None) processed"]
  show ?thesis by (simp add: summaryStats_fields del: not_None_eq)
qed

lemma locationEntry_fields:
  "retentionRate (locationEntry loc stats) =
     (if newClients stats > 0
      then jsTimes (jsDiv (retainedClients stats) (newClients stats)) (Num 100) else Num 0)"
  "locationConversionRate (locationEntry loc stats) =
     (if newClients stats > 0
      then jsTimes (jsDiv (convertedClients stats) (newClients stats)) (Num 100) else Num 0)"
  "newClients (locationEntry loc stats) = newClients stats"
  by (simp_all add: locationEntry_def locationBucket.extend_def)

subsection \<open>Sales that make the filter raise\<close>



subsection \<open>One client within the run\<close>




subsection \<open>Runs on any engine\<close>

text \<open>
  The sort has one possible result on the valid sales, so the relational reading of the
  loop body and of the loop is the graph of the functions.
\<close>

lemma stableSorted_sortedSales:
  assumes d: "\<forall>s\<in>set valid. \<exists>t. saleDate h s = Some t"
  shows "stableSorted h valid (sortedSales h valid)"
proof -
  let ?key = "\<lambda>s. case saleDate h s of Some t \<Rightarrow> t | None \<Rightarrow> (0::int)"
  have cmp: "compareDates h a b = ?key a - ?key b"
    if "a \<in> set valid" and "b \<in> set valid" for a b
  proof -
    from d that obtain ta tb where "saleDate h a = Some ta" and "saleDate h b = Some tb"
      by blast
    then show ?thesis by (simp add: compareDates_def)
  qed
  have le: "\<forall>a\<in>set valid. \<forall>b\<in>set valid. (compareDates h a b \<le> 0) = (?key a \<le> ?key b)"
    using cmp by simp
  have eq: "sortedSales h valid = sort_key ?key valid"
    unfolding sortedSales_def by (rule sortBy_sort_key[OF le])
  have m: "mset (sort_key ?key valid) = mset valid" by simp
  have se: "set (sort_key ?key valid) = set valid" by simp
  have "sorted (map ?key (sort_key ?key valid))" by (rule sorted_sort_key)
  then have "sorted_wrt (\<lambda>a b. ?key a \<le> ?key b) (sort_key ?key valid)"
    by (simp add: sorted_map)
  then have so: "sorted_wrt (\<lambda>a b. compareDates h a b \<le> 0) (sort_key ?key valid)"
    by (rule sorted_wrt_mono_rel[rotated]) (simp add: le)
  have st: "\<forall>a\<in>set valid. filter (\<lambda>b. compareDates h a b = 0) (sort_key ?key valid)
                            = filter (\<lambda>b. compareDates h a b = 0) valid"
  proof
    fix a assume a: "a \<in> set valid"
    have "filter (\<lambda>b. compareDates h a b = 0) (sort_key ?key valid)
          = filter (\<lambda>b. ?key b = ?key a) (sort_key ?key valid)"
      by (rule filter_cong[OF refl]) (auto simp: cmp[OF a])
    also have "\<dots> = filter (\<lambda>b. ?key b = ?key a) valid" by (rule sort_key_stable)
    also have "\<dots> = filter (\<lambda>b. compareDates h a b = 0) valid"
      by (rule filter_cong[OF refl]) (auto simp: cmp[OF a])
    finally show "filter (\<lambda>b. compareDates h a b = 0) (sort_key ?key valid)
                  = filter (\<lambda>b. compareDates h a b = 0) valid" .
  qed
  from m so st show ?thesis unfolding eq stableSorted_def by blast
qed

lemma sortOutcome_iff:
  assumes "\<forall>s\<in>set valid. \<exists>t. saleDate h s = Some t"
  shows "sortOutcome h valid ys \<longleftrightarrow> ys = sortedSales h valid"
proof -
  from assms have c: "\<forall>s\<in>set valid. saleDate h s \<noteq> None" by auto
  show ?thesis
  proof
    assume "sortOutcome h valid ys"
    with c have "stableSorted h valid ys" by (simp add: sortOutcome_def)
    from sortedSales_unique[OF assms this] show "ys = sortedSales h valid" .
  next
    assume "ys = sortedSales h valid"
    with stableSorted_sortedSales[OF assms] c show "sortOutcome h valid ys"
      by (simp add: sortOutcome_def)
  qed
qed

lemma valid_dates:
  assumes "validSales h visit sales errs = Inr (valid, errs')"
  shows "\<forall>s\<in>set valid. \<exists>t. saleDate h s = Some t"
proof
  fix s assume "s \<in> set valid"
  with validSales_Inr[OF assms] have "keeps h visit s" by simp
  from keeps_dates[OF this] show "\<exists>t. saleDate h s = Some t" by blast
qed

lemma clientOutcome_iff:
  "clientOutcome h salesData index client r \<longleftrightarrow> processClient h salesData index client = r"
proof (cases "isAllTrainers client")
  case (Inl e)
  then show ?thesis by (auto simp: clientOutcome_def processClient_def)
next
  case (Inr skip)
  show ?thesis
  proof (cases skip)
    case True
    with Inr show ?thesis by (auto simp: clientOutcome_def processClient_def)
  next
    case False
    show ?thesis
    proof (cases "validSales h (visitDate h client) (clientSales h salesData index client)
                    (clientErrors h client)")
      case (Inl e)
      with Inr False show ?thesis by (auto simp: clientOutcome_def processClient_def)
    next
      case r: (Inr ve)
      obtain valid errs where ve: "ve = (valid, errs)" by (cases ve)
      show ?thesis
      proof (cases "valid = []")
        case True
        with Inr False r ve show ?thesis by (auto simp: clientOutcome_def processClient_def)
      next
        case ne: False
        from r ve have "\<forall>s\<in>set valid. \<exists>t. saleDate h s = Some t"
          using valid_dates by blast
        from sortOutcome_iff[OF this] Inr False r ve ne show ?thesis
          by (auto simp: clientOutcome_def processClient_def)
      qed
    qed
  qed
qed

lemma loopOutcome_forEachClient:
  "loopOutcome h salesData index clients processed (forEachClient h salesData index clients processed)"
proof (induction clients arbitrary: index processed)
  case Nil
  show ?case by (simp add: loopOutcome.finished)
next
  case (Cons c cs)
  show ?case
  proof (cases "processClient h salesData index c")
    case (Inl e)
    then have "clientOutcome h salesData index c (Inl e)" by (simp add: clientOutcome_iff)
    from loopOutcome.raised[OF this] Inl show ?thesis by simp
  next
    case (Inr res)
    show ?thesis
    proof (cases res)
      case None
      with Inr have "clientOutcome h salesData index c (Inr None)" by (simp add: clientOutcome_iff)
      from loopOutcome.skipped[OF this Cons.IH] Inr None show ?thesis by simp
    next
      case (Some p)
      with Inr have "clientOutcome h salesData index c (Inr (Some p))"
        by (simp add: clientOutcome_iff)
      from loopOutcome.pushed[OF this Cons.IH] Inr Some show ?thesis by simp
    qed
  qed
qed

lemma loopOutcome_unique:
  "loopOutcome h salesData index clients processed r \<Longrightarrow>
   r = forEachClient h salesData index clients processed"
  by (induction rule: loopOutcome.induct) (simp_all add: clientOutcome_iff)

section \<open>The example rows, evaluated\<close>

lemma scenario_client_eval:
  "client_email scenario_client = JString ''e@x.com''"
  "client_memberID exampleHost i scenario_client = JString ''M1''"
  "client_firstVisitDate scenario_client = JString ''2024-01-01''"
  "isAllTrainers scenario_client = Inr False"
  by (simp_all add: scenario_client_def obj_def client_email_def client_memberID_def
      client_firstVisitDate_def isAllTrainers_def lor_def toLowerCase_def lowerChar_def)

lemma scenario_visitDate: "visitDate exampleHost scenario_client = Some 1704067200000"
  by code_simp

lemma scenario_clientErrors: "clientErrors exampleHost scenario_client = []"
  by code_simp

lemma scenarioA_eval:
  "saleValue exampleHost scenarioA_sale = Num 1000"
  "saleDate exampleHost scenarioA_sale = Some 1704412800000"
  "sale_category scenarioA_sale = JString ''class''"
  "sale_item scenarioA_sale = JString ''Class pack''"
  "sale_date scenarioA_sale = JString ''2024-01-05''"
  "scenarioA_sale ''Refunded'' = JString ''NO''"
  "scenarioA_sale ''Customer email'' = JString ''e@x.com''"
  by code_simp+


lemma text_eval:
  "isText (JString s)" "textOf (JString s) = s"
  by (simp_all add: isText_def textOf_def)

lemma lower_eval:
  "toLowerCase ''class'' = ''class''"
  "toLowerCase ''Class pack'' = ''class pack''"
  "toLowerCase ''2 For 1 Pass'' = ''2 for 1 pass''"
  by code_simp+

lemma scenarioA_validSales:
  "validSales exampleHost (Some 1704067200000) [scenarioA_sale] [] = Inr ([scenarioA_sale], [])"
  by (simp add: validSale_def scenarioA_eval lower_eval)

lemma scenario_clientSalesA:
  "clientSales exampleHost [scenarioA_sale] 0 scenario_client = [scenarioA_sale]"
  by (simp add: clientSales_def matchingSales_def emailMatch_def scenario_client_eval scenarioA_eval)





lemma scenario_clientSales2:
  "sale1 ''Customer email'' = JString ''e@x.com'' \<Longrightarrow>
   clientSales exampleHost [sale1] 0 scenario_client = [sale1]"
  "sale1 ''Customer email'' = JString ''e@x.com'' \<Longrightarrow>
   sale2 ''Customer email'' = JString ''e@x.com'' \<Longrightarrow>
   clientSales exampleHost [sale1, sale2] 0 scenario_client = [sale1, sale2]"
  by (simp_all add: clientSales_def matchingSales_def emailMatch_def scenario_client_eval)









lemma dropped_eval:
  "dropped all_trainers_row" "dropped totals_row" "\<not> dropped scenario_client"
  by (simp_all add: dropped_def all_trainers_row_def totals_row_def scenario_client_def obj_def
      toLowerCase_def lowerChar_def)

lemma teacher_text_eval:
  "isText (all_trainers_row ''Teacher'')" "isText (totals_row ''Teacher'')"
  "isText (scenario_client ''Teacher'')"
  by (simp_all add: isText_def all_trainers_row_def totals_row_def scenario_client_def obj_def)

lemma totals_row_eval:
  "client_teacher totals_row = JString ''ALL TRAINERS (total)''"
  "isAllTrainers totals_row = Inr True"
  by (simp_all add: client_teacher_def isAllTrainers_def totals_row_def obj_def lor_def
      toLowerCase_def lowerChar_def)

lemma scenarioA_row:
  "processClient exampleHost [scenarioA_sale] 0 scenario_client =
     Inr (Some (convertedClient exampleHost (Some 1704067200000) scenarioA_sale
                  (newClient exampleHost 0 scenario_client [])))"
proof -
  have r: "validSales exampleHost (visitDate exampleHost scenario_client)
             (clientSales exampleHost [scenarioA_sale] 0 scenario_client)
             (clientErrors exampleHost scenario_client) = Inr ([scenarioA_sale], [])"
    by (simp only: scenario_visitDate scenario_clientSalesA scenario_clientErrors scenarioA_validSales)
  have ne: "[scenarioA_sale] \<noteq> []" by simp
  show ?thesis
    unfolding processClient_converted[OF scenario_client_eval(4) r ne]
    by (simp add: sortedSales_single scenario_visitDate)
qed

lemma later_eval:
  "saleDate exampleHost later_sale = Some 1704758400000"
  by code_simp

lemma sameDay_eval:
  "saleDate exampleHost sameDay_sale = Some 1704412800000"
  by code_simp

text \<open>
  Of two purchases on the earliest day, the one that comes first in the input is sorted
  first, whichever it is.
\<close>

lemma sortedSales_tie_example:
  "sortedSales exampleHost [later_sale, scenarioA_sale, sameDay_sale]
     = [scenarioA_sale, sameDay_sale, later_sale]"
  "sortedSales exampleHost [later_sale, sameDay_sale, scenarioA_sale]
     = [sameDay_sale, scenarioA_sale, later_sale]"
  by (simp_all add: sortedSales_def sortBy_def compareDates_def later_eval sameDay_eval scenarioA_eval)





lemma sameDay_fields:
  "saleValue exampleHost sameDay_sale = Num 800"
  "sale_category sameDay_sale = JString ''private''"
  "sale_item sameDay_sale = JString ''Private session''"
  "sameDay_sale ''Refunded'' = JString ''NO''"
  "sameDay_sale ''Customer email'' = JString ''e@x.com''"
  by code_simp+

lemma lower_eval3:
  "toLowerCase ''private'' = ''private''"
  "toLowerCase ''Private session'' = ''private session''"
  by code_simp+

lemma two_same_day_sales:
  "processClient exampleHost [scenarioA_sale, sameDay_sale] 0 scenario_client =
     Inr (Some (convertedClient exampleHost (Some 1704067200000) scenarioA_sale
                  (newClient exampleHost 0 scenario_client [])))"
proof -
  have c: "clientSales exampleHost [scenarioA_sale, sameDay_sale] 0 scenario_client
           = [scenarioA_sale, sameDay_sale]"
    by (simp add: scenario_clientSales2 scenarioA_eval sameDay_fields)
  have v: "validSales exampleHost (Some 1704067200000) [scenarioA_sale, sameDay_sale] []
           = Inr ([scenarioA_sale, sameDay_sale], [])"
    by (simp add: validSale_def scenarioA_eval sameDay_fields sameDay_eval lower_eval lower_eval3)
  have r: "validSales exampleHost (visitDate exampleHost scenario_client)
             (clientSales exampleHost [scenarioA_sale, sameDay_sale] 0 scenario_client)
             (clientErrors exampleHost scenario_client)
           = Inr ([scenarioA_sale, sameDay_sale], [])"
    by (simp only: scenario_visitDate c scenario_clientErrors v)
  have ne: "[scenarioA_sale, sameDay_sale] \<noteq> []" by simp
  have s: "sortedSales exampleHost [scenarioA_sale, sameDay_sale] = [scenarioA_sale, sameDay_sale]"
    by (simp add: sortedSales_def sortBy_def compareDates_def scenarioA_eval sameDay_eval)
  show ?thesis
    unfolding processClient_converted[OF scenario_client_eval(4) r ne]
    by (simp add: s scenario_visitDate)
qed

lemma sameDay_differs: "sameDay_sale \<noteq> scenarioA_sale"
proof
  assume "sameDay_sale = scenarioA_sale"
  then have "sale_item sameDay_sale = sale_item scenarioA_sale" by simp
  then show False by (simp add: sameDay_fields scenarioA_eval)
qed

text \<open>
  Stability is what leaves the sort no choice: the two purchases of one day in the other
  order are sorted as well, and are not an array the sort may leave.
\<close>

lemma sorted_without_stability:
  "mset [sameDay_sale, scenarioA_sale] = mset [scenarioA_sale, sameDay_sale]
   \<and> sorted_wrt (\<lambda>a b. compareDates exampleHost a b \<le> 0) [sameDay_sale, scenarioA_sale]
   \<and> [sameDay_sale, scenarioA_sale] \<noteq> sortedSales exampleHost [scenarioA_sale, sameDay_sale]
   \<and> \<not> sortOutcome exampleHost [scenarioA_sale, sameDay_sale] [sameDay_sale, scenarioA_sale]"
proof -
  have s: "sortedSales exampleHost [scenarioA_sale, sameDay_sale] = [scenarioA_sale, sameDay_sale]"
    by (simp add: sortedSales_def sortBy_def compareDates_def scenarioA_eval sameDay_eval)
  have d: "\<forall>s\<in>set [scenarioA_sale, sameDay_sale]. \<exists>t. saleDate exampleHost s = Some t"
    by (simp add: scenarioA_eval sameDay_eval)
  have n: "[sameDay_sale, scenarioA_sale] \<noteq> sortedSales exampleHost [scenarioA_sale, sameDay_sale]"
    unfolding s using sameDay_differs by simp
  have "\<not> sortOutcome exampleHost [scenarioA_sale, sameDay_sale] [sameDay_sale, scenarioA_sale]"
    unfolding sortOutcome_iff[OF d] by (rule n)
  moreover have "sorted_wrt (\<lambda>a b. compareDates exampleHost a b \<le> 0) [sameDay_sale, scenarioA_sale]"
    by (simp add: compareDates_def scenarioA_eval sameDay_eval)
  moreover have "mset [sameDay_sale, scenarioA_sale] = mset [scenarioA_sale, sameDay_sale]"
    by (simp add: add.commute)
  ultimately show ?thesis using n by blast
qed

section \<open>Candidate purchases\<close>

text \<open>
  C1, as the code has it: a sale is a candidate of a client exactly when it is one of the
  sales and one of its three email columns is identical to the client's email, or one of
  its two member ID columns is identical to the client's member ID. Either key alone
  suffices. The comparison is \<^verbatim>\<open>===\<close>: no lower-casing and no trimming takes place.
\<close>

theorem candidate_iff_identical_key:
  "sale \<in> set (clientSales h salesData index client) \<longleftrightarrow>
     sale \<in> set salesData
     \<and> (sale ''Customer email'' = client_email client
        \<or> sale ''Paying Customer email'' = client_email client
        \<or> sale ''email'' = client_email client
        \<or> sale ''Member ID'' = client_memberID h index client
        \<or> sale ''memberID'' = client_memberID h index client)"
  by (auto simp: clientSales_def matchingSales_def emailMatch_def memberIDMatch_def)

text \<open>
  C1, an instance: a sale with the client's member ID and another email is a candidate.
\<close>

theorem candidate_iff_identical_key_witness:
  "memberOnly_sale ''Customer email'' \<noteq> client_email scenario_client
   \<and> memberOnly_sale ''Member ID'' = client_memberID exampleHost 0 scenario_client
   \<and> memberOnly_sale \<in> set (clientSales exampleHost [scenarioA_sale, memberOnly_sale] 0 scenario_client)"
  using candidate_iff_identical_key
    [of memberOnly_sale exampleHost "[scenarioA_sale, memberOnly_sale]" 0 scenario_client]
  by (simp add: client_email_def client_memberID_def scenario_client_def memberOnly_sale_def
      obj_def lor_def)

text \<open>
  C1 as stated fails: the sale's email \<^verbatim>\<open>e@x.com\<close> and the client's email \<^verbatim>\<open>E@X.com\<close>
  are equal once normalized, so the sale is a candidate in the words of the specification,
  and the code does not match it.
\<close>

theorem candidate_normalized_email_counterexample:
  "specCandidate (client_email upper_client) (client_memberID exampleHost 0 upper_client) lower_sale
   \<and> lower_sale \<notin> set (clientSales exampleHost [lower_sale] 0 upper_client)"
  by (simp add: specCandidate_def clientSales_def matchingSales_def emailMatch_def
      memberIDMatch_def client_email_def client_memberID_def upper_client_def lower_sale_def
      obj_def lor_def toLowerCase_def lowerChar_def trim_def)

section \<open>Valid purchases\<close>




section \<open>The first purchase of a converted client\<close>



section \<open>The explanation of a client that did not convert\<close>




section \<open>Negative sale values\<close>



section \<open>A first visit date that does not parse\<close>




section \<open>Rates with a zero denominator\<close>

text \<open>
  C7: the conversion rate of the summary is 0 when there is no client; the average days
  to conversion are 0 when no client has days to conversion; a location bucket with 0 new
  clients has the retention rate 0 and the conversion rate 0. Moreover each of the four
  rates is a number in every case, never \<^verbatim>\<open>NaN\<close> or an infinity: no division by zero
  is reached.
\<close>

theorem rates_zero_on_zero_denominator:
  "(total (summaryStats processed) = 0 \<longrightarrow> conversionRate (summaryStats processed) = Num 0)
   \<and> ((\<forall>c\<in>set processed. daysToConversion c = None) \<longrightarrow>
        avgDaysToConversion (summaryStats processed) = Num 0)
   \<and> (newClients stats = 0 \<longrightarrow>
        retentionRate (locationEntry loc stats) = Num 0
        \<and> locationConversionRate (locationEntry loc stats) = Num 0)
   \<and> (\<exists>q. conversionRate (summaryStats processed) = Num q)
   \<and> (\<exists>q. avgDaysToConversion (summaryStats processed) = Num q)
   \<and> (\<exists>q. retentionRate (locationEntry loc stats) = Num q)
   \<and> (\<exists>q. locationConversionRate (locationEntry loc stats) = Num q)"
proof -
  have a: "total (summaryStats processed) = 0 \<longrightarrow> conversionRate (summaryStats processed) = Num 0"
    by (simp add: summaryStats_fields)
  have b: "(\<forall>c\<in>set processed. daysToConversion c = None) \<longrightarrow>
        avgDaysToConversion (summaryStats processed) = Num 0"
  proof
    assume "\<forall>c\<in>set processed. daysToConversion c = None"
    then have "filter (\<lambda>c. daysToConversion c \<noteq> None) processed = []"
      by (simp add: filter_empty_conv)
    then show "avgDaysToConversion (summaryStats processed) = Num 0"
      by (simp add: summaryStats_fields del: not_None_eq)
  qed
  have c: "newClients stats = 0 \<longrightarrow>
        retentionRate (locationEntry loc stats) = Num 0
        \<and> locationConversionRate (locationEntry loc stats) = Num 0"
    by (simp add: locationEntry_fields)
  have d: "\<exists>q. conversionRate (summaryStats processed) = Num q"
    by (cases "processed = []") (simp_all add: summaryStats_fields jsDiv_Num)
  have e: "\<exists>q. retentionRate (locationEntry loc stats) = Num q"
    by (cases "newClients stats > 0") (simp_all add: locationEntry_fields jsDiv_Num)
  have f: "\<exists>q. locationConversionRate (locationEntry loc stats) = Num q"
    by (cases "newClients stats > 0") (simp_all add: locationEntry_fields jsDiv_Num)
  from a b c d avgDays_Num e f show ?thesis by blast
qed

text \<open>
  C7, an instance: the bucket the roll-up builds for a location whose only metric has no
  new client, and the summary of no client at all.
\<close>

theorem rates_zero_on_zero_denominator_witness:
  "\<exists>b. locationStats [empty_studio] ''Bandra'' = Some b
        \<and> newClients b = 0
        \<and> retentionRate (locationEntry ''Bandra'' b) = Num 0
        \<and> locationConversionRate (locationEntry ''Bandra'' b) = Num 0
        \<and> total (summaryStats []) = 0
        \<and> conversionRate (summaryStats []) = Num 0
        \<and> avgDaysToConversion (summaryStats []) = Num 0"
proof -
  let ?b = "\<lparr> newClients = 0, retainedClients = 0, convertedClients = 0, revenue = 0,
              teachers = {''Asha''} \<rparr>"
  have l: "locationStats [empty_studio] ''Bandra'' = Some ?b"
    by (simp add: locationStats_def addItem_def empty_studio_def)
  have n: "newClients ?b = 0" by simp
  have t: "total (summaryStats []) = 0" by (simp add: summaryStats_fields)
  have e: "\<forall>c\<in>set ([] :: processedClient list). daysToConversion c = None" by simp
  from rates_zero_on_zero_denominator[of "[]" ?b "''Bandra''"] n t e
  have "retentionRate (locationEntry ''Bandra'' ?b) = Num 0
        \<and> locationConversionRate (locationEntry ''Bandra'' ?b) = Num 0
        \<and> conversionRate (summaryStats []) = Num 0
        \<and> avgDaysToConversion (summaryStats []) = Num 0"
    by blast
  with l n t show ?thesis by blast
qed

section \<open>Determinism\<close>

text \<open>
  C8: take the client rows and the sale rows in a given order, on a given host, and let
  each run sort with any algorithm that ECMA-262 allows. Then a run has an outcome, the
  one \<open>processedData\<close> computes, and any two runs have the same outcome: both raise, or
  both return the same rows, with the same explanations, purchase selections and
  validation errors. This rests on the filter, which keeps only sales with a valid date,
  and on the stability of the sort.
\<close>

theorem run_outcome_unique:
  "runOutcome h newClientData salesData (processedData h newClientData salesData)
   \<and> (\<forall>r r'. runOutcome h newClientData salesData r
              \<and> runOutcome h newClientData salesData r' \<longrightarrow> r' = r)
   \<and> (\<forall>out out'. runOutcome h newClientData salesData (Inr out)
              \<and> runOutcome h newClientData salesData (Inr out') \<longrightarrow>
              map conversionDetails out' = map conversionDetails out
              \<and> map firstPurchaseDate out' = map firstPurchaseDate out
              \<and> map firstPurchaseProduct out' = map firstPurchaseProduct out
              \<and> map firstPurchaseValue out' = map firstPurchaseValue out
              \<and> map validationErrors out' = map validationErrors out)"
proof -
  have ex: "runOutcome h newClientData salesData (processedData h newClientData salesData)"
    by (simp add: runOutcome_def processedData_def loopOutcome_forEachClient)
  have un: "r = processedData h newClientData salesData"
    if "runOutcome h newClientData salesData r" for r
  proof (cases "newClientData = []")
    case True
    with that show ?thesis by (simp add: runOutcome_def processedData_def)
  next
    case False
    with that have "loopOutcome h salesData 0 newClientData [] r" by (simp add: runOutcome_def)
    from loopOutcome_unique[OF this] False show ?thesis by (simp add: processedData_def)
  qed
  have u2: "\<forall>r r'. runOutcome h newClientData salesData r
              \<and> runOutcome h newClientData salesData r' \<longrightarrow> r' = r"
    using un by blast
  have u3: "\<forall>out out'. runOutcome h newClientData salesData (Inr out)
              \<and> runOutcome h newClientData salesData (Inr out') \<longrightarrow>
              map conversionDetails out' = map conversionDetails out
              \<and> map firstPurchaseDate out' = map firstPurchaseDate out
              \<and> map firstPurchaseProduct out' = map firstPurchaseProduct out
              \<and> map firstPurchaseValue out' = map firstPurchaseValue out
              \<and> map validationErrors out' = map validationErrors out"
  proof (intro allI impI)
    fix out out'
    assume "runOutcome h newClientData salesData (Inr out)
              \<and> runOutcome h newClientData salesData (Inr out')"
    with u2 have "Inr out' = (Inr out :: error + processedClient list)" by blast
    then have "out' = out" by simp
    then show "map conversionDetails out' = map conversionDetails out
              \<and> map firstPurchaseDate out' = map firstPurchaseDate out
              \<and> map firstPurchaseProduct out' = map firstPurchaseProduct out
              \<and> map firstPurchaseValue out' = map firstPurchaseValue out
              \<and> map validationErrors out' = map validationErrors out" by simp
  qed
  from ex u2 u3 show ?thesis by blast
qed

text \<open>
  C8, an instance: the scenario client with two purchases on 2024-01-05. Every run
  returns the one row whose first purchase is the class pack, the first of the two in the
  input.
\<close>

theorem run_outcome_unique_witness:
  "\<exists>p. runOutcome exampleHost [scenario_client] [scenarioA_sale, sameDay_sale] (Inr [p])
        \<and> processedData exampleHost [scenario_client] [scenarioA_sale, sameDay_sale] = Inr [p]
        \<and> firstPurchaseProduct p = Some (JString ''Class pack'')"
proof -
  let ?p = "convertedClient exampleHost (Some 1704067200000) scenarioA_sale
              (newClient exampleHost 0 scenario_client [])"
  have o: "processedData exampleHost [scenario_client] [scenarioA_sale, sameDay_sale] = Inr [?p]"
    by (rule processedData_single[OF two_same_day_sales])
  from run_outcome_unique[of exampleHost "[scenario_client]" "[scenarioA_sale, sameDay_sale]"]
  have "runOutcome exampleHost [scenario_client] [scenarioA_sale, sameDay_sale] (Inr [?p])"
    unfolding o by blast
  moreover have "firstPurchaseProduct ?p = Some (JString ''Class pack'')"
    by (simp add: convertedClient_fields scenarioA_eval)
  ultimately show ?thesis using o by blast
qed

section \<open>Rows that are skipped\<close>

text \<open>
  C9, as the code has it: when no teacher, category or item that gets lower-cased is a
  number, the run returns, and its output is the rows of the clients in the input order,
  where a client gives no row when its \<^verbatim>\<open>Teacher\<close> column is a string that contains
  \<^verbatim>\<open>all trainers\<close> once lower-cased, and exactly one row otherwise. So the output has
  as many rows as there are clients that are not skipped.
\<close>

theorem all_trainers_rows_dropped:
  assumes "\<forall>c\<in>set newClientData. teacherIsText c"
    and "\<forall>s\<in>set salesData. isText (sale_category s) \<and> isText (sale_item s)"
  shows "\<exists>out. processedData h newClientData salesData = Inr out
           \<and> out = concat (map (\<lambda>(k, c). rowsOf h salesData k c) (enumerate 0 newClientData))
           \<and> (\<forall>(k, c)\<in>set (enumerate 0 newClientData).
                 length (rowsOf h salesData k c) = (if dropped c then 0 else 1))
           \<and> length out = length (filter (\<lambda>c. \<not> dropped c) newClientData)"
proof -
  have ret: "\<forall>(k, c)\<in>set (enumerate 0 newClientData). \<exists>r. processClient h salesData k c = Inr r"
  proof (clarify)
    fix k c assume "(k, c) \<in> set (enumerate 0 newClientData)"
    then have "c \<in> set newClientData" by (auto simp: in_set_enumerate_eq)
    with assms(1) have "teacherIsText c" by blast
    from processClient_text[OF this assms(2)] show "\<exists>r. processClient h salesData k c = Inr r"
      by blast
  qed
  have len: "\<forall>(k, c)\<in>set (enumerate 0 newClientData).
                 length (rowsOf h salesData k c) = (if dropped c then 0 else 1)"
  proof (clarify)
    fix k c assume "(k, c) \<in> set (enumerate 0 newClientData)"
    then have "c \<in> set newClientData" by (auto simp: in_set_enumerate_eq)
    with assms(1) have "teacherIsText c" by blast
    from rowsOf_text[OF this assms(2)]
    show "length (rowsOf h salesData k c) = (if dropped c then 0 else 1)" .
  qed
  from forEachClient_total[OF ret] obtain out where
    f: "forEachClient h salesData 0 newClientData [] = Inr out" by blast
  from forEachClient_Inr[OF f]
  have o: "out = concat (map (\<lambda>(k, c). rowsOf h salesData k c) (enumerate 0 newClientData))"
    by simp
  have p: "processedData h newClientData salesData = Inr out"
  proof (cases "newClientData = []")
    case True
    with f show ?thesis by (simp add: processedData_def)
  next
    case False
    with f show ?thesis by (simp add: processedData_def)
  qed
  have l: "length out = length (filter (\<lambda>c. \<not> dropped c) newClientData)"
    unfolding o by (rule length_concat_rows[OF len])
  from p o len l show ?thesis by blast
qed

text \<open>
  C9, an instance: of a row of \<^verbatim>\<open>All Trainers\<close>, the scenario client and a row of
  \<^verbatim>\<open>ALL TRAINERS (total)\<close>, one row comes out.
\<close>

theorem all_trainers_rows_dropped_witness:
  "\<exists>out. processedData exampleHost [all_trainers_row, scenario_client, totals_row] [scenarioA_sale]
            = Inr out
          \<and> length out = 1"
proof -
  have c: "\<forall>c\<in>set [all_trainers_row, scenario_client, totals_row]. teacherIsText c"
    by (simp add: teacherIsText_def teacher_text_eval)
  have s: "\<forall>s\<in>set [scenarioA_sale]. isText (sale_category s) \<and> isText (sale_item s)"
    by (simp add: scenarioA_eval text_eval)
  from all_trainers_rows_dropped[OF c s, of exampleHost] obtain out where
    p: "processedData exampleHost [all_trainers_row, scenario_client, totals_row] [scenarioA_sale]
          = Inr out"
    and l: "length out = length (filter (\<lambda>c. \<not> dropped c)
                                   [all_trainers_row, scenario_client, totals_row])"
    by blast
  from l have "length out = 1" by (simp add: dropped_eval)
  with p show ?thesis by blast
qed

text \<open>
  C9 as stated fails: a row whose teacher is not the label \<^verbatim>\<open>All Trainers\<close> and only
  contains it, in another case, produces no result.
\<close>

theorem other_teacher_dropped_counterexample:
  "client_teacher totals_row \<noteq> JString ''All Trainers''
   \<and> processedData exampleHost [totals_row] [] = Inr []"
  by (simp add: totals_row_eval processedData_def processClient_dropped)

section \<open>The purchase fields of a row\<close>

text \<open>
  C10: in every row a run produces, the status is converted exactly when the first
  purchase date, product and value and the days to conversion are all set, and a row that
  is not converted has all four \<^verbatim>\<open>null\<close>. Hence the total revenue of the summary, the
  sum of \<^verbatim>\<open>firstPurchaseValue || 0\<close> over all rows, is the same sum over the converted
  rows only; it is a number, never \<^verbatim>\<open>NaN\<close>.
\<close>

theorem purchase_fields_iff_converted:
  assumes "processedData h newClientData salesData = Inr out"
  shows "(\<forall>p\<in>set out.
            (conversionStatus p = converted \<longleftrightarrow>
               firstPurchaseDate p \<noteq> None \<and> firstPurchaseProduct p \<noteq> None
               \<and> firstPurchaseValue p \<noteq> None \<and> daysToConversion p \<noteq> None)
            \<and> (conversionStatus p = not_converted \<longrightarrow>
                 firstPurchaseDate p = None \<and> firstPurchaseProduct p = None
                 \<and> firstPurchaseValue p = None \<and> daysToConversion p = None))
         \<and> totalRevenue (summaryStats out)
             = foldl (\<lambda>sum c. jsAdd sum (valueOr0 (firstPurchaseValue c))) (Num 0)
                 (filter (\<lambda>c. conversionStatus c = converted) out)
         \<and> (\<exists>q. totalRevenue (summaryStats out) = Num q)"
proof -
  have row: "\<forall>p\<in>set out.
         (conversionStatus p = converted
            \<and> firstPurchaseDate p \<noteq> None \<and> firstPurchaseProduct p \<noteq> None
            \<and> (\<exists>q. firstPurchaseValue p = Some (Num q) \<and> 0 < q)
            \<and> daysToConversion p \<noteq> None)
         \<or> (conversionStatus p = not_converted
            \<and> firstPurchaseDate p = None \<and> firstPurchaseProduct p = None
            \<and> firstPurchaseValue p = None \<and> daysToConversion p = None)"
  proof
    fix p assume "p \<in> set out"
    from processedData_rows[OF assms this] obtain index client where
      "processClient h salesData index client = Inr (Some p)" by blast
    from processClient_row[OF this]
    show "(conversionStatus p = converted
            \<and> firstPurchaseDate p \<noteq> None \<and> firstPurchaseProduct p \<noteq> None
            \<and> (\<exists>q. firstPurchaseValue p = Some (Num q) \<and> 0 < q)
            \<and> daysToConversion p \<noteq> None)
         \<or> (conversionStatus p = not_converted
            \<and> firstPurchaseDate p = None \<and> firstPurchaseProduct p = None
            \<and> firstPurchaseValue p = None \<and> daysToConversion p = None)" .
  qed
  have inv: "\<forall>p\<in>set out.
            (conversionStatus p = converted \<longleftrightarrow>
               firstPurchaseDate p \<noteq> None \<and> firstPurchaseProduct p \<noteq> None
               \<and> firstPurchaseValue p \<noteq> None \<and> daysToConversion p \<noteq> None)
            \<and> (conversionStatus p = not_converted \<longrightarrow>
                 firstPurchaseDate p = None \<and> firstPurchaseProduct p = None
                 \<and> firstPurchaseValue p = None \<and> daysToConversion p = None)"
  proof
    fix p assume "p \<in> set out"
    with row show "(conversionStatus p = converted \<longleftrightarrow>
               firstPurchaseDate p \<noteq> None \<and> firstPurchaseProduct p \<noteq> None
               \<and> firstPurchaseValue p \<noteq> None \<and> daysToConversion p \<noteq> None)
            \<and> (conversionStatus p = not_converted \<longrightarrow>
                 firstPurchaseDate p = None \<and> firstPurchaseProduct p = None
                 \<and> firstPurchaseValue p = None \<and> daysToConversion p = None)"
      by (cases "conversionStatus p") force+
  qed
  have z: "\<forall>c\<in>set out. \<not> conversionStatus c = converted \<longrightarrow> valueOr0 (firstPurchaseValue c) = Num 0"
  proof (intro ballI impI)
    fix c assume "c \<in> set out" and "\<not> conversionStatus c = converted"
    with row have "firstPurchaseValue c = None" by force
    then show "valueOr0 (firstPurchaseValue c) = Num 0" by simp
  qed
  have rev: "totalRevenue (summaryStats out)
             = foldl (\<lambda>sum c. jsAdd sum (valueOr0 (firstPurchaseValue c))) (Num 0)
                 (filter (\<lambda>c. conversionStatus c = converted) out)"
    unfolding summaryStats_def Let_def
    using foldl_jsAdd_filter[OF z, of "Num 0"] by simp
  have n: "\<forall>c\<in>set out. \<exists>q. valueOr0 (firstPurchaseValue c) = Num q"
  proof
    fix c assume "c \<in> set out"
    with row show "\<exists>q. valueOr0 (firstPurchaseValue c) = Num q" by force
  qed
  have fin: "\<exists>q. totalRevenue (summaryStats out) = Num q"
    unfolding summaryStats_def Let_def
    using foldl_jsAdd_Num[OF n, of 0] by simp
  from inv rev fin show ?thesis by blast
qed

text \<open>
  C10, an instance (scenario A): the one row is converted, its four purchase fields are
  set, and the total revenue is 1000.
\<close>

theorem purchase_fields_iff_converted_witness:
  "\<exists>p. processedData exampleHost [scenario_client] [scenarioA_sale] = Inr [p]
        \<and> conversionStatus p = converted
        \<and> firstPurchaseDate p \<noteq> None \<and> firstPurchaseProduct p \<noteq> None
        \<and> firstPurchaseValue p \<noteq> None \<and> daysToConversion p \<noteq> None
        \<and> totalRevenue (summaryStats [p]) = Num 1000"
proof -
  let ?p = "convertedClient exampleHost (Some 1704067200000) scenarioA_sale
              (newClient exampleHost 0 scenario_client [])"
  have o: "processedData exampleHost [scenario_client] [scenarioA_sale] = Inr [?p]"
    by (rule processedData_single[OF scenarioA_row])
  have c: "conversionStatus ?p = converted" by (simp add: convertedClient_fields)
  have v: "firstPurchaseValue ?p = Some (Num 1000)"
    by (simp add: convertedClient_fields scenarioA_eval)
  from purchase_fields_iff_converted[OF o] c
  have f: "firstPurchaseDate ?p \<noteq> None \<and> firstPurchaseProduct ?p \<noteq> None
           \<and> firstPurchaseValue ?p \<noteq> None \<and> daysToConversion ?p \<noteq> None"
    and t: "totalRevenue (summaryStats [?p])
             = foldl (\<lambda>sum c. jsAdd sum (valueOr0 (firstPurchaseValue c))) (Num 0)
                 (filter (\<lambda>c. conversionStatus c = converted) [?p])"
    by simp_all
  from t have "totalRevenue (summaryStats [?p]) = Num 1000"
    by (simp only: c v filter.simps foldl.simps if_True refl valueOr0.simps jsAdd.simps) simp
  with o c f show ?thesis by blast
qed

end
